theory Spec2Isabelle
  imports Complex_Main "HOL-Library.Char_ord" "HOL-Library.List_Lexorder"
    "HOL-Library.Product_Lexorder"
begin

section \<open>Schemas (schemas.py)\<close>

text \<open>
  The request schemas are pydantic models whose fields are all \<open>Optional\<close> with default
  \<open>None\<close>: a field is an \<open>option\<close>. \<open>Optional[float]\<close> is modelled as \<open>real option\<close>,
  \<open>Optional[str]\<close> as \<open>string option\<close>, \<open>Optional[List[int]]\<close> as \<open>int list option\<close>.
\<close>

datatype SearchSortOrder = asc | desc

datatype GeometryOutputFormat = ewkt_format | ewkb_format

datatype GeometryFilterMethod = intersects | contains_method

record StringFilter =
  contains :: "string option"
  exact :: "string option"
  starts :: "string option"

record NumberFilter =
  eq :: "real option"
  gt :: "real option"
  gte :: "real option"
  lt :: "real option"
  lte :: "real option"

text \<open>The field \<open>method\<close> of the source is \<open>filter_method\<close> here.\<close>

record GeometryFilter =
  filter_method :: GeometryFilterMethod
  ewkb :: "string option"
  ewkt :: "string option"
  geojson :: "string option"

record GeneralBoundariesFilter =
  codes :: "int list option"
  feature_ids :: "int list option"
  name :: "StringFilter option"

record ParcelsFilter =
  unique_numbers :: "int list option"
  unique_number :: "StringFilter option"
  cadastral_number :: "StringFilter option"
  area_ha :: "NumberFilter option"

record BaseSearchFilterRequest =
  geometry :: "GeometryFilter option"

record CountiesSearchFilterRequest = BaseSearchFilterRequest +
  counties :: "GeneralBoundariesFilter option"

record MunicipalitiesSearchFilterRequest = CountiesSearchFilterRequest +
  municipalities :: "GeneralBoundariesFilter option"

section \<open>Python truthiness\<close>

text \<open>
  The filters test presence with \<open>if x:\<close>, never with \<open>is not None\<close>. For an optional
  string that is false on \<open>None\<close> and on the empty string, for an optional float on \<open>None\<close>
  and on zero, for an optional list on \<open>None\<close> and on the empty list, for an optional int
  on \<open>None\<close> and on zero. A pydantic model object defines neither \<open>__bool__\<close> nor
  \<open>__len__\<close>, so an optional model is false on \<open>None\<close> only.
\<close>

fun truthy_str :: "string option \<Rightarrow> bool" where
  "truthy_str None = False"
| "truthy_str (Some s) = (s \<noteq> [])"

fun truthy_float :: "real option \<Rightarrow> bool" where
  "truthy_float None = False"
| "truthy_float (Some x) = (x \<noteq> 0)"

fun truthy_list :: "'a list option \<Rightarrow> bool" where
  "truthy_list None = False"
| "truthy_list (Some xs) = (xs \<noteq> [])"

fun truthy_int :: "int option \<Rightarrow> bool" where
  "truthy_int None = False"
| "truthy_int (Some n) = (n \<noteq> 0)"

section \<open>Models (models.py) and column expressions\<close>

datatype model = Counties | Municipalities | Elderships | ResidentialAreas | Streets
  | Addresses | Rooms | StatusTypes | PurposeGroups | PurposeTypes | Parcels

text \<open>A mapped attribute \<open>models.M.a\<close> is the pair of the model and the attribute name.\<close>

datatype column = Column model string

datatype geom_from_func = GeomFromEWKB | ST_GeomFromEWKT | GeomFromGeoJSON

text \<open>
  Geometry expressions: a geometry column, a geometry parsed from a raw string, and
  \<open>ST_Transform(g, srid)\<close>. The SRID argument is optional because the services pass the
  request's \<open>Optional[int]\<close> on.
\<close>

datatype geom_expr =
    GeomColumn column
  | GeomFrom geom_from_func string
  | ST_Transform geom_expr "int option"

datatype filter_func = ST_Intersects | ST_Contains

text \<open>
  The column predicates that the filters and services build, named after the SQLAlchemy
  operators of the source: \<open>func.lower(f) == s\<close>, \<open>f.istartswith(s)\<close>, \<open>f.icontains(s)\<close>,
  the five numeric comparisons, \<open>f.in_(xs)\<close>, the spatial function applied to the filter
  geometry and the geometry field, and \<open>f == code\<close>.
\<close>

datatype predicate =
    LowerEquals column string
  | IStartsWith column string
  | IContains column string
  | NumEq column real
  | NumLt column real
  | NumLe column real
  | NumGt column real
  | NumGe column real
  | IsIn column "int list"
  | Spatial filter_func geom_expr column
  | CodeEquals column int

section \<open>Predicate builders (filters.py)\<close>

text \<open>
  A text is a list of characters. \<open>str.lower()\<close> is the interpreter's method of the text
  type, the Unicode case mapping; the functions that call it take it as the parameter
  \<open>str_lower\<close>.
\<close>

text \<open>
  A generator is modelled by the list of the values it yields, in order.
  \<^verbatim>\<open>
  def _filter_by_string_field(string_filter, string_field):
      if string_filter.exact:
          yield func.lower(string_field) == string_filter.exact.lower()
      elif string_filter.starts:
          yield string_field.istartswith(string_filter.starts)
      elif string_filter.contains:
          yield string_field.icontains(string_filter.contains)
  \<close>
\<close>

definition filter_by_string_field ::
  "(string \<Rightarrow> string) \<Rightarrow> StringFilter \<Rightarrow> column \<Rightarrow> predicate list" where
  "filter_by_string_field str_lower string_filter string_field =
     (if truthy_str (exact string_filter) then
        [LowerEquals string_field (str_lower (the (exact string_filter)))]
      else if truthy_str (starts string_filter) then
        [IStartsWith string_field (the (starts string_filter))]
      else if truthy_str (contains string_filter) then
        [IContains string_field (the (contains string_filter))]
      else [])"

text \<open>
  \<^verbatim>\<open>
  def _filter_by_number_field(number_filter, number_field):
      if number_filter.eq:
          yield number_field == number_filter.eq
      else:
          if number_filter.lt:
              yield number_field < number_filter.lt
          elif number_filter.lte:
              yield number_field <= number_filter.lte
          if number_filter.gt:
              yield number_field > number_filter.gt
          elif number_filter.gte:
              yield number_field >= number_filter.gte
  \<close>
\<close>

definition filter_by_number_field :: "NumberFilter \<Rightarrow> column \<Rightarrow> predicate list" where
  "filter_by_number_field number_filter number_field =
     (if truthy_float (eq number_filter) then
        [NumEq number_field (the (eq number_filter))]
      else
        (if truthy_float (lt number_filter) then
           [NumLt number_field (the (lt number_filter))]
         else if truthy_float (lte number_filter) then
           [NumLe number_field (the (lte number_filter))]
         else [])
        @
        (if truthy_float (gt number_filter) then
           [NumGt number_field (the (gt number_filter))]
         else if truthy_float (gte number_filter) then
           [NumGe number_field (the (gte number_filter))]
         else []))"

section \<open>Errors and the database session\<close>

text \<open>
  Every exception of the source is a value. \<open>InvalidFilterGeometry\<close> carries the message,
  the field and the value of the source's exception class; \<open>OperationalError\<close> is the
  driver's low-level execution error (\<open>sqlean.OperationalError\<close>) and \<open>DatabaseFailure\<close>
  stands for any other exception that executing a statement raises.
\<close>

datatype error =
    InvalidFilterGeometry string string string
  | ValueError string
  | TypeError string
  | AttributeError string
  | OperationalError
  | DatabaseFailure

text \<open>
  A row of a statement's FROM clause gives every column a value. The session \<open>db\<close> is the
  spatial database as the code sees it: what \<open>db.execute(ST_IsValid(g)).scalar()\<close> returns
  or raises, the rows of the FROM clause of each entity's statement (the entity's table
  with its outer joins), whether a row makes a column predicate true (a predicate that
  evaluates to NULL does not select the row), and the number to which the engine coerces a
  text in arithmetic.
\<close>

datatype val = Null | Number real | Text string | Blob string

type_synonym row = "column \<Rightarrow> val"

record session =
  execute_ST_IsValid :: "geom_expr \<Rightarrow> error + int option"
  from_rows :: "model \<Rightarrow> row list"
  is_true :: "row \<Rightarrow> predicate \<Rightarrow> bool"
  text_to_number :: "string \<Rightarrow> real"

section \<open>Geometry filter (filters.py)\<close>

text \<open>
  \<^verbatim>\<open>
  def _is_valid_geometry(db, geom):
      try:
          return db.execute(ST_IsValid(geom)).scalar() == 1
      except OperationalError:
          return False
  \<close>
  Only \<open>OperationalError\<close> is caught; any other exception propagates.
\<close>

definition is_valid_geometry :: "session \<Rightarrow> geom_expr \<Rightarrow> error + bool" where
  "is_valid_geometry db geom =
     (case execute_ST_IsValid db geom of
        Inr scalar \<Rightarrow> Inr (scalar = Some 1)
      | Inl OperationalError \<Rightarrow> Inr False
      | Inl e \<Rightarrow> Inl e)"

text \<open>
  \<open>_get_filter_func\<close>: the \<open>case _\<close> branch that raises \<open>ValueError\<close> needs a method outside
  the enumeration, which the type excludes.
\<close>

fun get_filter_func :: "GeometryFilterMethod \<Rightarrow> filter_func" where
  "get_filter_func intersects = ST_Intersects"
| "get_filter_func contains_method = ST_Contains"

text \<open>
  \<^verbatim>\<open>
  def _filter_by_geometry(db, geom_value, field, geom_field, filter_func_type,
                          geom_from_func_type):
      geom = ST_Transform(geom_from_func_type(geom_value), 3346)
      if not _is_valid_geometry(db, geom):
          raise InvalidFilterGeometry(message="Invalid geometry", field=field,
                                      value=geom_value)
      yield filter_func_type(geom, geom_field)
  \<close>
  A generator that may raise is modelled by \<open>error + predicate list\<close>: what
  \<open>list(...)\<close> of it returns or raises.
\<close>

definition filter_by_geometry ::
  "session \<Rightarrow> string \<Rightarrow> string \<Rightarrow> column \<Rightarrow> filter_func \<Rightarrow> geom_from_func
     \<Rightarrow> error + predicate list" where
  "filter_by_geometry db geom_value field geom_field filter_func_type geom_from_func_type =
     (let geom = ST_Transform (GeomFrom geom_from_func_type geom_value) (Some 3346) in
      case is_valid_geometry db geom of
        Inl e \<Rightarrow> Inl e
      | Inr valid \<Rightarrow>
          if \<not> valid then Inl (InvalidFilterGeometry ''Invalid geometry'' field geom_value)
          else Inr [Spatial filter_func_type geom geom_field])"

text \<open>\<open>yield from a\<close> followed by \<open>yield from b\<close>: the first exception wins.\<close>

definition then_yield :: "error + 'a list \<Rightarrow> error + 'a list \<Rightarrow> error + 'a list" where
  "then_yield a b =
     (case a of
        Inl e \<Rightarrow> Inl e
      | Inr xs \<Rightarrow> (case b of Inl e \<Rightarrow> Inl e | Inr ys \<Rightarrow> Inr (xs @ ys)))"

text \<open>
  The filter classes that define \<open>Meta.geom_field\<close>; \<open>self\<close> is the class of the filter
  object, which decides the geometry field whichever \<open>apply\<close> of the inheritance chain
  runs. Rooms use the geometry of their address.
\<close>

datatype filter_class = CountiesFilter | MunicipalitiesFilter | EldershipsFilter
  | ResidentialAreasFilter | StreetsFilter | AddressesFilter | RoomsFilter | ParcelsFilter

fun Meta_geom_field :: "filter_class \<Rightarrow> column option" where
  "Meta_geom_field CountiesFilter = Some (Column Counties ''geom'')"
| "Meta_geom_field MunicipalitiesFilter = Some (Column Municipalities ''geom'')"
| "Meta_geom_field EldershipsFilter = Some (Column Elderships ''geom'')"
| "Meta_geom_field ResidentialAreasFilter = Some (Column ResidentialAreas ''geom'')"
| "Meta_geom_field StreetsFilter = Some (Column Streets ''geom'')"
| "Meta_geom_field AddressesFilter = Some (Column Addresses ''geom'')"
| "Meta_geom_field RoomsFilter = Some (Column Addresses ''geom'')"
| "Meta_geom_field ParcelsFilter = Some (Column Parcels ''geom'')"

text \<open>
  \<^verbatim>\<open>
  def _apply_geometry_filter(self, geometry_filter, db):
      filter_func_type = _get_filter_func(geometry_filter.method)
      geom_field = self.Meta.geom_field
      if geom_field is None:
          raise ValueError('geom_field in meta is not defined')
      if ewkb := geometry_filter.ewkb:
          yield from self._filter_by_geometry(db=db, field="ewkb", geom_value=ewkb, ...
              geom_from_func_type=database.GeomFromEWKB, ...)
      if ewkt := geometry_filter.ewkt:
          yield from self._filter_by_geometry(db=db, field="ewkt", geom_value=ewkt, ...
              geom_from_func_type=ST_GeomFromEWKT, ...)
      if geojson := geometry_filter.geojson:
          yield from self._filter_by_geometry(db=db, field="geojson", geom_value=geojson, ...
              geom_from_func_type=database.GeomFromGeoJSON, ...)
  \<close>
\<close>

definition apply_geometry_filter ::
  "filter_class \<Rightarrow> GeometryFilter \<Rightarrow> session \<Rightarrow> error + predicate list" where
  "apply_geometry_filter self geometry_filter db =
     (let filter_func_type = get_filter_func (filter_method geometry_filter) in
      case Meta_geom_field self of
        None \<Rightarrow> Inl (ValueError ''geom_field in meta is not defined'')
      | Some geom_field \<Rightarrow>
          then_yield
            (if truthy_str (ewkb geometry_filter) then
               filter_by_geometry db (the (ewkb geometry_filter)) ''ewkb'' geom_field
                 filter_func_type GeomFromEWKB
             else Inr [])
            (then_yield
               (if truthy_str (ewkt geometry_filter) then
                  filter_by_geometry db (the (ewkt geometry_filter)) ''ewkt'' geom_field
                    filter_func_type ST_GeomFromEWKT
                else Inr [])
               (if truthy_str (geojson geometry_filter) then
                  filter_by_geometry db (the (geojson geometry_filter)) ''geojson'' geom_field
                    filter_func_type GeomFromGeoJSON
                else Inr [])))"

section \<open>Mapped columns (models.py)\<close>

datatype column_type = Integer | String | Double | Date | Geometry

text \<open>The \<open>Column\<close> attributes of each model, with the base class's columns first.\<close>

definition BaseBoundaries_columns :: "(string \<times> column_type) list" where
  "BaseBoundaries_columns =
     [(''feature_id'', Integer), (''code'', Integer), (''name'', String), (''geom'', Geometry)]"

fun model_columns :: "model \<Rightarrow> (string \<times> column_type) list" where
  "model_columns Counties = BaseBoundaries_columns @
     [(''area_ha'', Double), (''created_at'', Date)]"
| "model_columns Municipalities = BaseBoundaries_columns @
     [(''area_ha'', Double), (''created_at'', Date), (''county_code'', Integer)]"
| "model_columns Elderships = BaseBoundaries_columns @
     [(''area_ha'', Double), (''created_at'', Date), (''municipality_code'', Integer)]"
| "model_columns ResidentialAreas = BaseBoundaries_columns @
     [(''area_ha'', Double), (''created_at'', Date), (''municipality_code'', Integer)]"
| "model_columns Streets = BaseBoundaries_columns @
     [(''length_m'', Double), (''full_name'', String), (''created_at'', Date),
      (''residential_area_code'', Integer)]"
| "model_columns Addresses =
     [(''feature_id'', Integer), (''code'', Integer), (''plot_or_building_number'', String),
      (''postal_code'', String), (''building_block_number'', String), (''geom'', Geometry),
      (''created_at'', Date), (''municipality_code'', Integer),
      (''residential_area_code'', Integer), (''street_code'', Integer)]"
| "model_columns Rooms =
     [(''code'', Integer), (''room_number'', String), (''created_at'', Date),
      (''address_code'', Integer)]"
| "model_columns StatusTypes =
     [(''status_id'', Integer), (''name'', String), (''full_name'', String),
      (''name_en'', String), (''full_name_en'', String), (''updated_at'', Date)]"
| "model_columns PurposeGroups =
     [(''group_id'', Integer), (''name'', String), (''full_name'', String),
      (''updated_at'', Date)]"
| "model_columns PurposeTypes =
     [(''purpose_id'', Integer), (''purpose_group_id'', Integer), (''name'', String),
      (''full_name'', String), (''name_en'', String), (''full_name_en'', String),
      (''updated_at'', Date)]"
| "model_columns Parcels =
     [(''ogc_fid'', Integer), (''unique_number'', Integer), (''cadastral_number'', String),
      (''status_id'', Integer), (''purpose_id'', Integer), (''updated_at'', Date),
      (''area_ha'', Double), (''municipality_code'', Integer), (''geom'', Geometry)]"

text \<open>
  \<open>getattr(model_class, a).type\<close> for a mapped column \<open>a\<close>, and \<open>hasattr(model_class, a)\<close>
  for the two names the source asks about, \<open>name\<close> and \<open>code\<close>, which are columns where
  they exist.
\<close>

definition column_type_of :: "model \<Rightarrow> string \<Rightarrow> column_type option" where
  "column_type_of model_class a = map_of (model_columns model_class) a"

definition hasattr :: "model \<Rightarrow> string \<Rightarrow> bool" where
  "hasattr model_class a = (column_type_of model_class a \<noteq> None)"

section \<open>Entity filters (filters.py)\<close>

text \<open>
  \<^verbatim>\<open>
  def _apply_general_boundaries_filter(general_boundaries_filter, model_class):
      if hasattr(model_class, 'name') and general_boundaries_filter.name:
          yield from _filter_by_string_field(string_filter=general_boundaries_filter.name,
                                             string_field=getattr(model_class, 'name'))
      feature_ids = general_boundaries_filter.feature_ids
      if feature_ids and len(general_boundaries_filter.feature_ids) > 0:
          yield getattr(model_class, 'feature_id').in_(feature_ids)
      codes = general_boundaries_filter.codes
      if codes and len(codes) > 0:
          yield getattr(model_class, 'code').in_(codes)
  \<close>
\<close>

definition apply_general_boundaries_filter ::
  "(string \<Rightarrow> string) \<Rightarrow> GeneralBoundariesFilter \<Rightarrow> model \<Rightarrow> predicate list" where
  "apply_general_boundaries_filter str_lower general_boundaries_filter model_class =
     (if hasattr model_class ''name'' \<and> name general_boundaries_filter \<noteq> None then
        filter_by_string_field str_lower (the (name general_boundaries_filter))
          (Column model_class ''name'')
      else [])
     @
     (if truthy_list (feature_ids general_boundaries_filter)
         \<and> length (the (feature_ids general_boundaries_filter)) > 0 then
        [IsIn (Column model_class ''feature_id'') (the (feature_ids general_boundaries_filter))]
      else [])
     @
     (if truthy_list (codes general_boundaries_filter)
         \<and> length (the (codes general_boundaries_filter)) > 0 then
        [IsIn (Column model_class ''code'') (the (codes general_boundaries_filter))]
      else [])"

text \<open>
  \<open>BaseFilter.apply\<close>, \<open>CountiesFilter.apply\<close> and \<open>MunicipalitiesFilter.apply\<close>: each yields
  what its superclass yields, then the predicates of its own entity. The request records
  extend one another as the request classes do, so a filter accepts the requests of the
  classes below it.
\<close>

definition BaseFilter_apply ::
  "filter_class \<Rightarrow> 'a BaseSearchFilterRequest_scheme \<Rightarrow> session \<Rightarrow> error + predicate list" where
  "BaseFilter_apply self search_filter db =
     (case geometry search_filter of
        Some geometry_filter \<Rightarrow> apply_geometry_filter self geometry_filter db
      | None \<Rightarrow> Inr [])"

definition CountiesFilter_apply ::
  "(string \<Rightarrow> string) \<Rightarrow> filter_class \<Rightarrow> 'a CountiesSearchFilterRequest_scheme \<Rightarrow> session
     \<Rightarrow> error + predicate list" where
  "CountiesFilter_apply str_lower self search_filter db =
     then_yield (BaseFilter_apply self search_filter db)
       (Inr (case counties search_filter of
               Some counties_filter \<Rightarrow>
                 apply_general_boundaries_filter str_lower counties_filter Counties
             | None \<Rightarrow> []))"

definition MunicipalitiesFilter_apply ::
  "(string \<Rightarrow> string) \<Rightarrow> filter_class \<Rightarrow> 'a MunicipalitiesSearchFilterRequest_scheme
     \<Rightarrow> session \<Rightarrow> error + predicate list" where
  "MunicipalitiesFilter_apply str_lower self search_filter db =
     then_yield (CountiesFilter_apply str_lower self search_filter db)
       (Inr (case municipalities search_filter of
               Some municipalities_filter \<Rightarrow>
                 apply_general_boundaries_filter str_lower municipalities_filter Municipalities
             | None \<Rightarrow> []))"

text \<open>
  \<^verbatim>\<open>
  def _apply_parcels_filters(parcel_filter):
      if parcel_filter.cadastral_number:
          yield from _filter_by_string_field(string_filter=parcel_filter.cadastral_number,
                                             string_field=models.Parcels.cadastral_number)
      unique_numbers = parcel_filter.unique_numbers
      if unique_numbers and len(unique_numbers) > 0:
          yield models.Parcels.unique_number.in_(unique_numbers)
      if parcel_filter.area_ha:
          yield from _filter_by_number_field(number_filter=parcel_filter.area_ha,
                                             number_field=models.Parcels.area_ha)
  \<close>
\<close>

definition apply_parcels_filters ::
  "(string \<Rightarrow> string) \<Rightarrow> ParcelsFilter \<Rightarrow> predicate list" where
  "apply_parcels_filters str_lower parcel_filter =
     (if cadastral_number parcel_filter \<noteq> None then
        filter_by_string_field str_lower (the (cadastral_number parcel_filter))
          (Column Parcels ''cadastral_number'')
      else [])
     @
     (if truthy_list (unique_numbers parcel_filter)
         \<and> length (the (unique_numbers parcel_filter)) > 0 then
        [IsIn (Column Parcels ''unique_number'') (the (unique_numbers parcel_filter))]
      else [])
     @
     (if area_ha parcel_filter \<noteq> None then
        filter_by_number_field (the (area_ha parcel_filter)) (Column Parcels ''area_ha'')
      else [])"

section \<open>Statements (what the services build with SQLAlchemy)\<close>

text \<open>
  A where criterion is a column predicate or an \<open>and_\<close> or \<open>or_\<close> clause list. \<open>and_(*ps)\<close>
  and \<open>or_(*cs)\<close> keep their arguments in order.
\<close>

datatype clause = Atom predicate | And "clause list" | Or "clause list"

definition and_clause :: "predicate list \<Rightarrow> clause" where
  "and_clause ps = And (map Atom ps)"

definition or_clause :: "clause list \<Rightarrow> clause" where
  "or_clause cs = Or cs"

text \<open>
  A projected column is a mapped column, one of the module's JSON objects, or the label
  \<open>geometry\<close> on \<open>ST_Transform(field, srid, type_=t)\<close>.
\<close>

datatype json_object = county_object | municipality_object | flat_residential_area_object
  | residential_area_object | flat_street_object | address_short_object
  | purpose_type_object | status_type_object

datatype geometry_output_type = EWKTGeometry | GeometryType

datatype select_column =
    Attribute column
  | JsonObject json_object
  | GeometryLabel geom_expr geometry_output_type

text \<open>
  An ORDER BY element: the column, the column under a collation, or the column times a
  number, each ascending or descending (a bare expression is ascending).
\<close>

datatype sort_expr = SortColumn column | Collate column string | Times column real

type_synonym order_clause = "sort_expr \<times> SearchSortOrder"

record select_query =
  columns :: "select_column list"
  select_from :: model
  outerjoins :: "(model \<times> string) list"
  where_criteria :: "clause list"
  order_by_clauses :: "order_clause list"

definition select_stmt ::
  "select_column list \<Rightarrow> model \<Rightarrow> (model \<times> string) list \<Rightarrow> select_query" where
  "select_stmt cols m js =
     \<lparr>columns = cols, select_from = m, outerjoins = js, where_criteria = [],
      order_by_clauses = []\<rparr>"

text \<open>\<open>query.where(c)\<close> and \<open>query.filter(c)\<close> add a criterion; \<open>query.order_by(...)\<close> appends.\<close>

definition where_clause :: "select_query \<Rightarrow> clause \<Rightarrow> select_query" where
  "where_clause query c = query\<lparr>where_criteria := where_criteria query @ [c]\<rparr>"

definition order_by :: "select_query \<Rightarrow> order_clause list \<Rightarrow> select_query" where
  "order_by query cs = query\<lparr>order_by_clauses := order_by_clauses query @ cs\<rparr>"

section \<open>Executing a statement\<close>

text \<open>
  The criteria hold no negation, so a row is selected exactly when its criteria evaluate
  to true, with NULL counted as not true: an \<open>And\<close> is true when all its elements are, an
  \<open>Or\<close> when one is.
\<close>

fun holds :: "(row \<Rightarrow> predicate \<Rightarrow> bool) \<Rightarrow> row \<Rightarrow> clause \<Rightarrow> bool" where
  "holds sat r (Atom p) = sat r p"
| "holds sat r (And cs) = (\<forall>c \<in> set cs. holds sat r c)"
| "holds sat r (Or cs) = (\<exists>c \<in> set cs. holds sat r c)"

text \<open>
  \<open>or_()\<close> and \<open>and_()\<close> without arguments build an empty clause list. SQLAlchemy
  deprecates the call and renders such a clause as a blank string; the statement compiler
  joins the where criteria that render non-blank with AND and writes no WHERE at all when
  none is left. So a blank criterion restricts nothing.
\<close>

fun blank :: "clause \<Rightarrow> bool" where
  "blank (And []) = True"
| "blank (Or []) = True"
| "blank _ = False"

definition selected :: "session \<Rightarrow> select_query \<Rightarrow> row \<Rightarrow> bool" where
  "selected db query r =
     (\<forall>c \<in> set (where_criteria query). blank c \<or> holds (is_true db) r c)"

text \<open>
  The engine folds case on the 26 ASCII letters only, in the \<open>NOCASE\<close> collation as in
  its \<open>lower()\<close>: bit 5 of \<open>A\<close> to \<open>Z\<close> is set, which adds 32, and every other character is
  left as it is.
\<close>

definition lower_char :: "char \<Rightarrow> char" where
  "lower_char c =
     (if CHR ''A'' \<le> c \<and> c \<le> CHR ''Z''
      then (case c of Char b0 b1 b2 b3 b4 b5 b6 b7 \<Rightarrow> Char b0 b1 b2 b3 b4 True b6 b7)
      else c)"

definition lower :: "string \<Rightarrow> string" where
  "lower s = map lower_char s"

text \<open>
  ORDER BY compares values as SQLite does: NULL first, then numbers by value, then text,
  then blobs, byte by byte; a text in arithmetic is coerced to a number by the engine.
\<close>

fun storage_key :: "val \<Rightarrow> nat \<times> real \<times> string" where
  "storage_key Null = (0, 0, [])"
| "storage_key (Number x) = (1, x, [])"
| "storage_key (Text s) = (2, 0, s)"
| "storage_key (Blob b) = (3, 0, b)"

fun sort_value :: "session \<Rightarrow> sort_expr \<Rightarrow> row \<Rightarrow> val" where
  "sort_value db (SortColumn c) r = r c"
| "sort_value db (Collate c collation) r =
     (case r c of
        Text s \<Rightarrow> Text (if collation = ''NOCASE'' then lower s else s)
      | v \<Rightarrow> v)"
| "sort_value db (Times c n) r =
     (case r c of
        Null \<Rightarrow> Null
      | Number x \<Rightarrow> Number (x * n)
      | Text s \<Rightarrow> Number (text_to_number db s * n)
      | Blob b \<Rightarrow> Number (text_to_number db b * n))"

fun key_le :: "session \<Rightarrow> order_clause \<Rightarrow> row \<Rightarrow> row \<Rightarrow> bool" where
  "key_le db (e, asc) a b = (storage_key (sort_value db e a) \<le> storage_key (sort_value db e b))"
| "key_le db (e, desc) a b = (storage_key (sort_value db e b) \<le> storage_key (sort_value db e a))"

text \<open>Lexicographic order on the ORDER BY list: a later element decides only ties.\<close>

fun rows_le :: "session \<Rightarrow> order_clause list \<Rightarrow> row \<Rightarrow> row \<Rightarrow> bool" where
  "rows_le db [] a b = True"
| "rows_le db (k # ks) a b = (key_le db k a b \<and> (key_le db k b a \<longrightarrow> rows_le db ks a b))"

fun insert_row :: "session \<Rightarrow> order_clause list \<Rightarrow> row \<Rightarrow> row list \<Rightarrow> row list" where
  "insert_row db ks x [] = [x]"
| "insert_row db ks x (y # ys) =
     (if rows_le db ks x y then x # y # ys else y # insert_row db ks x ys)"

definition sort_rows :: "session \<Rightarrow> order_clause list \<Rightarrow> row list \<Rightarrow> row list" where
  "sort_rows db ks rows = foldr (insert_row db ks) rows []"

text \<open>
  The rows a statement returns, each identified with the row of the FROM clause it is
  computed from: those that the criteria select, in the order of the ORDER BY list.
\<close>

definition execute :: "session \<Rightarrow> select_query \<Rightarrow> row list" where
  "execute db query =
     sort_rows db (order_by_clauses query)
       (filter (selected db query) (from_rows db (select_from query)))"

definition first :: "'a list \<Rightarrow> 'a option" where
  "first rows = (case rows of [] \<Rightarrow> None | r # _ \<Rightarrow> Some r)"

section \<open>Services (services.py)\<close>

datatype service = CountiesService | MunicipalitiesService | EldershipsService
  | ResidentialAreasService | StreetsService | AddressesService | RoomsService
  | ParcelsService

fun model_class :: "service \<Rightarrow> model" where
  "model_class CountiesService = Counties"
| "model_class MunicipalitiesService = Municipalities"
| "model_class EldershipsService = Elderships"
| "model_class ResidentialAreasService = ResidentialAreas"
| "model_class StreetsService = Streets"
| "model_class AddressesService = Addresses"
| "model_class RoomsService = Rooms"
| "model_class ParcelsService = Parcels"

text \<open>
  \<^verbatim>\<open>
  def _get_geometry_output_type(geometry_output_format):
      match geometry_output_format:
          case schemas.GeometryOutputFormat.ewkt: return database.EWKTGeometry
          case schemas.GeometryOutputFormat.ewkb: return Geometry()
          case _: raise ValueError(f"Unable to map geometry output format ...")

  def _get_geometry_field(field, srid, geometry_output_format):
      geometry_output_type = BaseBoundariesService._get_geometry_output_type(
          geometry_output_format)
      return ST_Transform(field, srid, type_=geometry_output_type).label("geometry")
  \<close>
  The services pass the request's optional format on, so \<open>None\<close> reaches \<open>case _\<close>.
\<close>

fun get_geometry_output_type :: "GeometryOutputFormat option \<Rightarrow> error + geometry_output_type" where
  "get_geometry_output_type (Some ewkt_format) = Inr EWKTGeometry"
| "get_geometry_output_type (Some ewkb_format) = Inr GeometryType"
| "get_geometry_output_type None = Inl (ValueError ''Unable to map geometry output format None'')"

definition get_geometry_field ::
  "column \<Rightarrow> int option \<Rightarrow> GeometryOutputFormat option \<Rightarrow> error + select_column" where
  "get_geometry_field field srid geometry_output_format =
     (case get_geometry_output_type geometry_output_format of
        Inl e \<Rightarrow> Inl e
      | Inr geometry_output_type \<Rightarrow>
          Inr (GeometryLabel (ST_Transform (GeomColumn field) srid) geometry_output_type))"

text \<open>
  \<open>_get_select_query\<close> of each service. Counties and rooms append the geometry label
  \<open>if srid and geometry_output_format\<close>. Municipalities, elderships, residential areas
  and streets test \<open>if srid\<close> only and then call
  \<open>self._get_geometry_field(models.M.geom, srid)\<close>, two arguments for a static method of
  three parameters without defaults, which raises \<open>TypeError\<close>. Addresses and parcels call
  \<open>self._get_geometry_field(models.M.geom, srid, geometry_output_format)\<close> inside the
  column list, without a test.
\<close>

definition missing_argument :: error where
  "missing_argument =
     TypeError ''_get_geometry_field() missing 1 required positional argument''"

fun get_select_query ::
  "service \<Rightarrow> int option \<Rightarrow> GeometryOutputFormat option \<Rightarrow> error + select_query" where
  "get_select_query CountiesService srid geometry_output_format =
     (case (if truthy_int srid \<and> geometry_output_format \<noteq> None then
              map_sum id (\<lambda>g. [g])
                (get_geometry_field (Column Counties ''geom'') srid geometry_output_format)
            else Inr []) of
        Inl e \<Rightarrow> Inl e
      | Inr geometry_columns \<Rightarrow>
          Inr (select_stmt
            ([Attribute (Column Counties ''code''), Attribute (Column Counties ''feature_id''),
              Attribute (Column Counties ''name''), Attribute (Column Counties ''area_ha''),
              Attribute (Column Counties ''area_ha''), Attribute (Column Counties ''created_at'')]
             @ geometry_columns)
            Counties []))"
| "get_select_query MunicipalitiesService srid geometry_output_format =
     (case (if truthy_int srid then Inl missing_argument else Inr []) of
        Inl e \<Rightarrow> Inl e
      | Inr geometry_columns \<Rightarrow>
          Inr (select_stmt
            ([Attribute (Column Municipalities ''code''),
              Attribute (Column Municipalities ''feature_id''),
              Attribute (Column Municipalities ''name''),
              Attribute (Column Municipalities ''area_ha''),
              Attribute (Column Municipalities ''created_at''),
              JsonObject county_object]
             @ geometry_columns)
            Municipalities [(Municipalities, ''county'')]))"
| "get_select_query EldershipsService srid geometry_output_format =
     (case (if truthy_int srid then Inl missing_argument else Inr []) of
        Inl e \<Rightarrow> Inl e
      | Inr geometry_columns \<Rightarrow>
          Inr (select_stmt
            ([Attribute (Column Elderships ''code''),
              Attribute (Column Elderships ''feature_id''),
              Attribute (Column Elderships ''name''),
              Attribute (Column Elderships ''area_ha''),
              Attribute (Column Elderships ''created_at''),
              JsonObject municipality_object]
             @ geometry_columns)
            Elderships [(Elderships, ''municipality''), (Municipalities, ''county'')]))"
| "get_select_query ResidentialAreasService srid geometry_output_format =
     (case (if truthy_int srid then Inl missing_argument else Inr []) of
        Inl e \<Rightarrow> Inl e
      | Inr geometry_columns \<Rightarrow>
          Inr (select_stmt
            ([Attribute (Column ResidentialAreas ''code''),
              Attribute (Column ResidentialAreas ''feature_id''),
              Attribute (Column ResidentialAreas ''name''),
              Attribute (Column ResidentialAreas ''area_ha''),
              Attribute (Column ResidentialAreas ''created_at''),
              JsonObject municipality_object]
             @ geometry_columns)
            ResidentialAreas
            [(ResidentialAreas, ''municipality''), (Municipalities, ''county'')]))"
| "get_select_query StreetsService srid geometry_output_format =
     (case (if truthy_int srid then Inl missing_argument else Inr []) of
        Inl e \<Rightarrow> Inl e
      | Inr geometry_columns \<Rightarrow>
          Inr (select_stmt
            ([Attribute (Column Streets ''code''),
              Attribute (Column Streets ''feature_id''),
              Attribute (Column Streets ''name''),
              Attribute (Column Streets ''length_m''),
              Attribute (Column Streets ''full_name''),
              Attribute (Column Streets ''created_at''),
              JsonObject residential_area_object]
             @ geometry_columns)
            Streets
            [(Streets, ''residential_area''), (ResidentialAreas, ''municipality''),
             (Municipalities, ''county'')]))"
| "get_select_query AddressesService srid geometry_output_format =
     (case get_geometry_field (Column Addresses ''geom'') srid geometry_output_format of
        Inl e \<Rightarrow> Inl e
      | Inr geometry_column \<Rightarrow>
          Inr (select_stmt
            [Attribute (Column Addresses ''feature_id''),
             Attribute (Column Addresses ''code''),
             Attribute (Column Addresses ''plot_or_building_number''),
             Attribute (Column Addresses ''building_block_number''),
             Attribute (Column Addresses ''postal_code''),
             Attribute (Column Addresses ''created_at''),
             JsonObject flat_residential_area_object,
             JsonObject municipality_object,
             JsonObject flat_street_object,
             geometry_column]
            Addresses
            [(Addresses, ''municipality''), (Municipalities, ''county''),
             (Addresses, ''street''), (Addresses, ''residential_area'')]))"
| "get_select_query RoomsService srid geometry_output_format =
     (case (if truthy_int srid \<and> geometry_output_format \<noteq> None then
              map_sum id (\<lambda>g. [g])
                (get_geometry_field (Column Addresses ''geom'') srid geometry_output_format)
            else Inr []) of
        Inl e \<Rightarrow> Inl e
      | Inr geometry_columns \<Rightarrow>
          Inr (select_stmt
            ([Attribute (Column Rooms ''code''), Attribute (Column Rooms ''room_number''),
              Attribute (Column Rooms ''created_at''), JsonObject address_short_object]
             @ geometry_columns)
            Rooms
            [(Rooms, ''address''), (Addresses, ''municipality''), (Municipalities, ''county''),
             (Addresses, ''street''), (Addresses, ''residential_area'')]))"
| "get_select_query ParcelsService srid geometry_output_format =
     (case get_geometry_field (Column Parcels ''geom'') srid geometry_output_format of
        Inl e \<Rightarrow> Inl e
      | Inr geometry_column \<Rightarrow>
          Inr (select_stmt
            [Attribute (Column Parcels ''unique_number''),
             Attribute (Column Parcels ''cadastral_number''),
             Attribute (Column Parcels ''area_ha''),
             Attribute (Column Parcels ''updated_at''),
             JsonObject municipality_object,
             JsonObject purpose_type_object,
             JsonObject status_type_object,
             geometry_column]
            Parcels
            [(Parcels, ''municipality''), (Parcels, ''purpose''), (Parcels, ''status''),
             (PurposeTypes, ''purpose_group''), (Municipalities, ''county'')]))"

text \<open>
  \<open>_filter_by_code\<close>: every service but the last returns
  \<open>query.filter(models.M.code == code)\<close>;
  \<^verbatim>\<open>
  # Currently not implemented - unique numbers are duplicates
  def _filter_by_code(self, query, code):     # ParcelsService
      return query
  \<close>
\<close>

fun filter_by_code :: "service \<Rightarrow> select_query \<Rightarrow> int \<Rightarrow> select_query" where
  "filter_by_code ParcelsService query code = query"
| "filter_by_code self query code =
     where_clause query (Atom (CodeEquals (Column (model_class self) ''code'') code))"

text \<open>
  \<^verbatim>\<open>
  def get_by_code(self, db, code, geometry_output_format=None, srid=None):
      query = self._get_select_query(srid=srid,
                                     geometry_output_format=geometry_output_format)
      query = self._filter_by_code(code=code, query=query)
      return db.execute(query).first()
  \<close>
\<close>

definition get_by_code ::
  "service \<Rightarrow> session \<Rightarrow> int \<Rightarrow> GeometryOutputFormat option \<Rightarrow> int option
     \<Rightarrow> error + row option" where
  "get_by_code self db code geometry_output_format srid =
     (case get_select_query self srid geometry_output_format of
        Inl e \<Rightarrow> Inl e
      | Inr query \<Rightarrow> Inr (first (execute db (filter_by_code self query code))))"

text \<open>
  The loop of \<open>search\<close> over the filter groups of the request:
  \<^verbatim>\<open>
  query_search_filters = []
  for search_filter in request.filters:
      query_and_filters = list(boundaries_filter.apply(search_filter, db))
      if len(query_and_filters) > 0:
          query_search_filters.append(and_(*query_and_filters))
  \<close>
\<close>

fun search_filters_loop ::
  "('f \<Rightarrow> session \<Rightarrow> error + predicate list) \<Rightarrow> session \<Rightarrow> 'f list \<Rightarrow> clause list
     \<Rightarrow> error + clause list" where
  "search_filters_loop boundaries_filter db [] query_search_filters = Inr query_search_filters"
| "search_filters_loop boundaries_filter db (search_filter # rest) query_search_filters =
     (case boundaries_filter search_filter db of
        Inl e \<Rightarrow> Inl e
      | Inr query_and_filters \<Rightarrow>
          search_filters_loop boundaries_filter db rest
            (if length query_and_filters > 0
             then query_search_filters @ [and_clause query_and_filters]
             else query_search_filters))"

record 'f BaseSearchRequest =
  filters :: "'f list"

text \<open>
  \<open>search\<close> up to the statement it hands to the pagination collaborator:
  \<^verbatim>\<open>
  query = self._get_select_query(srid=srid, geometry_output_format=geometry_output_format)
  ... the loop above ...
  query = query.where(or_(*query_search_filters))
  sort_attr = getattr(self.model_class, sort_by_field)
  if sort_attr is not None and isinstance(sort_attr.type, String):
      sort_by = operators.collate(sort_attr, "NOCASE")
  else:
      sort_by = sort_attr
  if sort_order == schemas.SearchSortOrder.desc:
      sort_by = sort_by.desc()
  if sort_by_field == 'room_number' or sort_by_field == 'plot_or_building_number':
      if sort_order == schemas.SearchSortOrder.asc:
          query = query.order_by((sort_attr * 1).asc())
      else:
          query = query.order_by((sort_attr * 1).desc())
  if hasattr(self.model_class, 'code'):
      query = query.order_by(sort_by, self.model_class.code.asc())
  else:
      query = query.order_by(sort_by)
  \<close>
  \<open>getattr\<close> of a name that is no column of the model raises \<open>AttributeError\<close>.
\<close>

definition search_query ::
  "service \<Rightarrow> session \<Rightarrow> string \<Rightarrow> SearchSortOrder \<Rightarrow> 'f BaseSearchRequest
     \<Rightarrow> ('f \<Rightarrow> session \<Rightarrow> error + predicate list) \<Rightarrow> int option
     \<Rightarrow> GeometryOutputFormat option \<Rightarrow> error + select_query" where
  "search_query self db sort_by_field sort_order request boundaries_filter srid
     geometry_output_format =
     (case get_select_query self srid geometry_output_format of
        Inl e \<Rightarrow> Inl e
      | Inr query0 \<Rightarrow>
     (case search_filters_loop boundaries_filter db (filters request) [] of
        Inl e \<Rightarrow> Inl e
      | Inr query_search_filters \<Rightarrow>
     (case column_type_of (model_class self) sort_by_field of
        None \<Rightarrow> Inl (AttributeError sort_by_field)
      | Some sort_attr_type \<Rightarrow>
          let query1 = where_clause query0 (or_clause query_search_filters);
              sort_attr = Column (model_class self) sort_by_field;
              sort_by = (if sort_attr_type = String then Collate sort_attr ''NOCASE''
                         else SortColumn sort_attr);
              sort_by_dir = (sort_by, if sort_order = desc then desc else asc);
              query2 =
                (if sort_by_field = ''room_number''
                    \<or> sort_by_field = ''plot_or_building_number'' then
                   (if sort_order = asc then order_by query1 [(Times sort_attr 1, asc)]
                    else order_by query1 [(Times sort_attr 1, desc)])
                 else query1)
          in Inr (if hasattr (model_class self) ''code'' then
                    order_by query2
                      [sort_by_dir, (SortColumn (Column (model_class self) ''code''), asc)]
                  else order_by query2 [sort_by_dir]))))"

text \<open>
  \<open>return paginate(db, query)\<close>: the collaborator \<open>paginate\<close> makes the page from the rows
  that the statement returns.
\<close>

definition search ::
  "(row list \<Rightarrow> 'page) \<Rightarrow> service \<Rightarrow> session \<Rightarrow> string \<Rightarrow> SearchSortOrder
     \<Rightarrow> 'f BaseSearchRequest \<Rightarrow> ('f \<Rightarrow> session \<Rightarrow> error + predicate list) \<Rightarrow> int option
     \<Rightarrow> GeometryOutputFormat option \<Rightarrow> error + 'page" where
  "search paginate self db sort_by_field sort_order request boundaries_filter srid
     geometry_output_format =
     (case search_query self db sort_by_field sort_order request boundaries_filter srid
             geometry_output_format of
        Inl e \<Rightarrow> Inl e
      | Inr query \<Rightarrow> Inr (paginate (execute db query)))"

section \<open>Reading a statement's projection\<close>

fun is_geometry_label :: "select_column \<Rightarrow> bool" where
  "is_geometry_label (GeometryLabel g t) = True"
| "is_geometry_label _ = False"

definition geometry_columns :: "select_query \<Rightarrow> select_column list" where
  "geometry_columns query = filter is_geometry_label (columns query)"

section \<open>An example database\<close>

text \<open>
  A small session for the examples: rows given by the values of their columns, the
  coercion of a text to the number its leading decimal digits spell (0 when there are
  none), and column predicates read in the plain way, without LIKE wildcards. The example
  tables hold no geometry, so no spatial predicate is true of their rows, and the
  validity check accepts exactly the texts listed as valid.
\<close>

definition example_row :: "model \<Rightarrow> (string \<times> val) list \<Rightarrow> row" where
  "example_row m kvs =
     (\<lambda>c. case c of Column m' a \<Rightarrow>
        (if m' = m then (case map_of kvs a of Some v \<Rightarrow> v | None \<Rightarrow> Null) else Null))"

fun digit_value :: "char \<Rightarrow> nat option" where
  "digit_value c =
     (if c = CHR ''0'' then Some 0 else if c = CHR ''1'' then Some 1
      else if c = CHR ''2'' then Some 2 else if c = CHR ''3'' then Some 3
      else if c = CHR ''4'' then Some 4 else if c = CHR ''5'' then Some 5
      else if c = CHR ''6'' then Some 6 else if c = CHR ''7'' then Some 7
      else if c = CHR ''8'' then Some 8 else if c = CHR ''9'' then Some 9
      else None)"

fun leading_digits :: "nat \<Rightarrow> string \<Rightarrow> nat" where
  "leading_digits acc [] = acc"
| "leading_digits acc (c # cs) =
     (case digit_value c of
        None \<Rightarrow> acc
      | Some d \<Rightarrow> leading_digits (10 * acc + d) cs)"

definition leading_number :: "string \<Rightarrow> real" where
  "leading_number s = real (leading_digits 0 s)"

fun starts_with :: "string \<Rightarrow> string \<Rightarrow> bool" where
  "starts_with [] t = True"
| "starts_with (c # cs) [] = False"
| "starts_with (c # cs) (d # ds) = (c = d \<and> starts_with cs ds)"

fun has_substring :: "string \<Rightarrow> string \<Rightarrow> bool" where
  "has_substring s [] = (s = [])"
| "has_substring s (d # ds) = (starts_with s (d # ds) \<or> has_substring s ds)"

fun example_is_true :: "row \<Rightarrow> predicate \<Rightarrow> bool" where
  "example_is_true r (LowerEquals c s) = (case r c of Text t \<Rightarrow> lower t = s | _ \<Rightarrow> False)"
| "example_is_true r (IStartsWith c s) =
     (case r c of Text t \<Rightarrow> starts_with (lower s) (lower t) | _ \<Rightarrow> False)"
| "example_is_true r (IContains c s) =
     (case r c of Text t \<Rightarrow> has_substring (lower s) (lower t) | _ \<Rightarrow> False)"
| "example_is_true r (NumEq c x) = (case r c of Number y \<Rightarrow> y = x | _ \<Rightarrow> False)"
| "example_is_true r (NumLt c x) = (case r c of Number y \<Rightarrow> y < x | _ \<Rightarrow> False)"
| "example_is_true r (NumLe c x) = (case r c of Number y \<Rightarrow> y \<le> x | _ \<Rightarrow> False)"
| "example_is_true r (NumGt c x) = (case r c of Number y \<Rightarrow> y > x | _ \<Rightarrow> False)"
| "example_is_true r (NumGe c x) = (case r c of Number y \<Rightarrow> y \<ge> x | _ \<Rightarrow> False)"
| "example_is_true r (IsIn c xs) =
     (case r c of Number y \<Rightarrow> y \<in> set (map real_of_int xs) | _ \<Rightarrow> False)"
| "example_is_true r (Spatial f g c) = False"
| "example_is_true r (CodeEquals c n) = (case r c of Number y \<Rightarrow> y = real_of_int n | _ \<Rightarrow> False)"

definition example_session :: "string list \<Rightarrow> (model \<Rightarrow> row list) \<Rightarrow> session" where
  "example_session valid_texts tables =
     \<lparr>execute_ST_IsValid =
        (\<lambda>g. case g of
           ST_Transform (GeomFrom f s) srid \<Rightarrow>
             (if s \<in> set valid_texts then Inr (Some 1) else Inl OperationalError)
         | _ \<Rightarrow> Inr (Some 0)),
      from_rows = tables,
      is_true = example_is_true,
      text_to_number = leading_number\<rparr>"

definition county :: "int \<Rightarrow> string \<Rightarrow> row" where
  "county code_value name_value =
     example_row Counties [(''code'', Number (real_of_int code_value)), (''name'', Text name_value)]"

definition address :: "int \<Rightarrow> string \<Rightarrow> row" where
  "address code_value number =
     example_row Addresses
       [(''code'', Number (real_of_int code_value)), (''plot_or_building_number'', Text number)]"

definition parcel :: "int \<Rightarrow> row" where
  "parcel number = example_row Parcels [(''unique_number'', Number (real_of_int number))]"

definition example_tables :: "model \<Rightarrow> row list" where
  "example_tables m =
     (if m = Counties then [county 1 ''Vilnius'', county 2 ''Kaunas'', county 3 ''Alytus'']
      else if m = Addresses then
        [address 1 ''2'', address 2 ''10'', address 3 ''1A'', address 4 ''101'']
      else if m = Parcels then [parcel 7, parcel 7, parcel 9]
      else [])"

text \<open>
  The texts of the examples are ASCII. On ASCII text \<open>str.lower()\<close> folds \<open>A\<close> to \<open>Z\<close> and
  nothing else, which is what the examples pass for \<open>str_lower\<close>.
\<close>

definition example_str_lower :: "string \<Rightarrow> string" where
  "example_str_lower s = map lower_char s"

text \<open>Filter groups on counties for the examples.\<close>

definition group_codes :: "int list \<Rightarrow> CountiesSearchFilterRequest" where
  "group_codes cs = \<lparr>geometry = None,
     counties = Some \<lparr>codes = Some cs, feature_ids = None, name = None\<rparr>\<rparr>"

definition group_name_exact :: "string \<Rightarrow> CountiesSearchFilterRequest" where
  "group_name_exact s = \<lparr>geometry = None,
     counties = Some \<lparr>codes = None, feature_ids = None,
       name = Some \<lparr>contains = None, exact = Some s, starts = None\<rparr>\<rparr>\<rparr>"

definition group_empty :: CountiesSearchFilterRequest where
  "group_empty = \<lparr>geometry = None, counties = None\<rparr>"

section \<open>Properties of the predicate builders\<close>

text \<open>
  Claim C3, as amended. A number filter whose \<open>eq\<close> is set and not zero yields the equality
  predicate alone, whatever its bounds. When \<open>eq\<close> is unset or zero, the upper bound is
  \<open>lt\<close> if that is set and not zero, else \<open>lte\<close> if that is set and not zero (never both),
  and independently the lower bound is \<open>gt\<close> if set and not zero, else \<open>gte\<close> if set and
  not zero; nothing else is yielded.
\<close>

theorem number_filter_precedence:
  "(eq nf = Some v \<and> v \<noteq> 0 \<longrightarrow> filter_by_number_field nf f = [NumEq f v]) \<and>
   (\<not> truthy_float (eq nf) \<and> lt nf = Some a \<and> a \<noteq> 0 \<longrightarrow>
      NumLt f a \<in> set (filter_by_number_field nf f) \<and>
      (\<forall>b. NumLe f b \<notin> set (filter_by_number_field nf f))) \<and>
   (\<not> truthy_float (eq nf) \<and> \<not> truthy_float (lt nf) \<and> lte nf = Some b \<and> b \<noteq> 0 \<longrightarrow>
      NumLe f b \<in> set (filter_by_number_field nf f)) \<and>
   (\<not> truthy_float (eq nf) \<and> gt nf = Some c \<and> c \<noteq> 0 \<longrightarrow>
      NumGt f c \<in> set (filter_by_number_field nf f) \<and>
      (\<forall>d. NumGe f d \<notin> set (filter_by_number_field nf f))) \<and>
   (\<not> truthy_float (eq nf) \<and> \<not> truthy_float (gt nf) \<and> gte nf = Some d \<and> d \<noteq> 0 \<longrightarrow>
      NumGe f d \<in> set (filter_by_number_field nf f)) \<and>
   (\<not> truthy_float (eq nf) \<longrightarrow>
      length (filter_by_number_field nf f) =
        (if truthy_float (lt nf) \<or> truthy_float (lte nf) then 1 else 0) +
        (if truthy_float (gt nf) \<or> truthy_float (gte nf) then 1 else 0))"
  by (auto simp add: filter_by_number_field_def)

theorem number_filter_precedence_witness:
  "filter_by_number_field \<lparr>eq = Some 5, gt = None, gte = None, lt = Some 1, lte = None\<rparr>
      (Column Parcels ''area_ha'') = [NumEq (Column Parcels ''area_ha'') 5] \<and>
   NumLt (Column Parcels ''area_ha'') 10 \<in> set (filter_by_number_field
      \<lparr>eq = None, gt = Some 2, gte = Some 3, lt = Some 10, lte = Some 5\<rparr> (Column Parcels ''area_ha'')) \<and>
   NumLe (Column Parcels ''area_ha'') 5 \<notin> set (filter_by_number_field
      \<lparr>eq = None, gt = Some 2, gte = Some 3, lt = Some 10, lte = Some 5\<rparr> (Column Parcels ''area_ha'')) \<and>
   NumGt (Column Parcels ''area_ha'') 2 \<in> set (filter_by_number_field
      \<lparr>eq = None, gt = Some 2, gte = Some 3, lt = Some 10, lte = Some 5\<rparr> (Column Parcels ''area_ha'')) \<and>
   NumLe (Column Parcels ''area_ha'') 5 \<in> set (filter_by_number_field
      \<lparr>eq = None, gt = None, gte = Some 3, lt = None, lte = Some 5\<rparr> (Column Parcels ''area_ha'')) \<and>
   NumGe (Column Parcels ''area_ha'') 3 \<in> set (filter_by_number_field
      \<lparr>eq = None, gt = None, gte = Some 3, lt = None, lte = Some 5\<rparr> (Column Parcels ''area_ha''))"
  using number_filter_precedence
          [of "\<lparr>eq = Some 5, gt = None, gte = None, lt = Some 1, lte = None\<rparr>" 5
              "Column Parcels ''area_ha''" 0 0 0 0]
        number_filter_precedence
          [of "\<lparr>eq = None, gt = Some 2, gte = Some 3, lt = Some 10, lte = Some 5\<rparr>" 0
              "Column Parcels ''area_ha''" 10 0 2 0]
        number_filter_precedence
          [of "\<lparr>eq = None, gt = None, gte = Some 3, lt = None, lte = Some 5\<rparr>" 0
              "Column Parcels ''area_ha''" 0 5 0 3]
  by simp

text \<open>
  The claim as the spec words it (\<open>eq\<close> present means \<open>eq\<close> applied) fails where \<open>eq\<close> is
  present and zero: \<open>{eq: 0, lt: 5}\<close> yields the bound \<open>< 5\<close> and no equality.
\<close>

theorem number_filter_eq_zero_counterexample:
  "filter_by_number_field
     \<lparr>eq = Some 0, gt = None, gte = None, lt = Some 5, lte = None\<rparr> (Column Parcels ''area_ha'')
   = [NumLt (Column Parcels ''area_ha'') 5] \<and>
   filter_by_number_field
     \<lparr>eq = Some 0, gt = None, gte = None, lt = Some 5, lte = None\<rparr> (Column Parcels ''area_ha'')
   \<noteq> [NumEq (Column Parcels ''area_ha'') 0]"
  by (simp add: filter_by_number_field_def)

text \<open>
  Claim C10. A number filter whose \<open>eq\<close> is zero yields no equality predicate; it yields
  what the same filter with \<open>eq\<close> unset yields, which are the bounds present: \<open>lt\<close> if set
  and not zero, else \<open>lte\<close> if set and not zero, and \<open>gt\<close> if set and not zero, else \<open>gte\<close>
  if set and not zero, and nothing besides. Likewise a bound whose value is zero is never
  yielded and the filter behaves as with that bound unset: behind a zero \<open>lt\<close> the bound
  \<open>lte\<close> is applied, behind a zero \<open>gt\<close> the bound \<open>gte\<close>.
\<close>

theorem number_filter_zero_is_absent:
  "(eq nf = Some 0 \<longrightarrow>
      (\<forall>v. NumEq f v \<notin> set (filter_by_number_field nf f)) \<and>
      (lt nf = Some a \<and> a \<noteq> 0 \<longrightarrow> NumLt f a \<in> set (filter_by_number_field nf f)) \<and>
      (\<not> truthy_float (lt nf) \<and> lte nf = Some b \<and> b \<noteq> 0 \<longrightarrow>
         NumLe f b \<in> set (filter_by_number_field nf f)) \<and>
      (gt nf = Some c \<and> c \<noteq> 0 \<longrightarrow> NumGt f c \<in> set (filter_by_number_field nf f)) \<and>
      (\<not> truthy_float (gt nf) \<and> gte nf = Some d \<and> d \<noteq> 0 \<longrightarrow>
         NumGe f d \<in> set (filter_by_number_field nf f)) \<and>
      length (filter_by_number_field nf f) =
        (if truthy_float (lt nf) \<or> truthy_float (lte nf) then 1 else 0) +
        (if truthy_float (gt nf) \<or> truthy_float (gte nf) then 1 else 0) \<and>
      filter_by_number_field nf f = filter_by_number_field (nf\<lparr>eq := None\<rparr>) f) \<and>
   (lt nf = Some 0 \<longrightarrow>
      (\<forall>v. NumLt f v \<notin> set (filter_by_number_field nf f)) \<and>
      (\<not> truthy_float (eq nf) \<and> lte nf = Some b \<and> b \<noteq> 0 \<longrightarrow>
         NumLe f b \<in> set (filter_by_number_field nf f)) \<and>
      filter_by_number_field nf f = filter_by_number_field (nf\<lparr>lt := None\<rparr>) f) \<and>
   (lte nf = Some 0 \<longrightarrow>
      (\<forall>v. NumLe f v \<notin> set (filter_by_number_field nf f)) \<and>
      filter_by_number_field nf f = filter_by_number_field (nf\<lparr>lte := None\<rparr>) f) \<and>
   (gt nf = Some 0 \<longrightarrow>
      (\<forall>v. NumGt f v \<notin> set (filter_by_number_field nf f)) \<and>
      (\<not> truthy_float (eq nf) \<and> gte nf = Some d \<and> d \<noteq> 0 \<longrightarrow>
         NumGe f d \<in> set (filter_by_number_field nf f)) \<and>
      filter_by_number_field nf f = filter_by_number_field (nf\<lparr>gt := None\<rparr>) f) \<and>
   (gte nf = Some 0 \<longrightarrow>
      (\<forall>v. NumGe f v \<notin> set (filter_by_number_field nf f)) \<and>
      filter_by_number_field nf f = filter_by_number_field (nf\<lparr>gte := None\<rparr>) f)"
proof -
  have e: "eq nf = Some 0 \<longrightarrow>
      (\<forall>v. NumEq f v \<notin> set (filter_by_number_field nf f)) \<and>
      (lt nf = Some a \<and> a \<noteq> 0 \<longrightarrow> NumLt f a \<in> set (filter_by_number_field nf f)) \<and>
      (\<not> truthy_float (lt nf) \<and> lte nf = Some b \<and> b \<noteq> 0 \<longrightarrow>
         NumLe f b \<in> set (filter_by_number_field nf f)) \<and>
      (gt nf = Some c \<and> c \<noteq> 0 \<longrightarrow> NumGt f c \<in> set (filter_by_number_field nf f)) \<and>
      (\<not> truthy_float (gt nf) \<and> gte nf = Some d \<and> d \<noteq> 0 \<longrightarrow>
         NumGe f d \<in> set (filter_by_number_field nf f)) \<and>
      length (filter_by_number_field nf f) =
        (if truthy_float (lt nf) \<or> truthy_float (lte nf) then 1 else 0) +
        (if truthy_float (gt nf) \<or> truthy_float (gte nf) then 1 else 0) \<and>
      filter_by_number_field nf f = filter_by_number_field (nf\<lparr>eq := None\<rparr>) f"
    by (auto simp add: filter_by_number_field_def)
  have l: "lt nf = Some 0 \<longrightarrow>
      (\<forall>v. NumLt f v \<notin> set (filter_by_number_field nf f)) \<and>
      (\<not> truthy_float (eq nf) \<and> lte nf = Some b \<and> b \<noteq> 0 \<longrightarrow>
         NumLe f b \<in> set (filter_by_number_field nf f)) \<and>
      filter_by_number_field nf f = filter_by_number_field (nf\<lparr>lt := None\<rparr>) f"
    by (auto simp add: filter_by_number_field_def)
  have le: "lte nf = Some 0 \<longrightarrow>
      (\<forall>v. NumLe f v \<notin> set (filter_by_number_field nf f)) \<and>
      filter_by_number_field nf f = filter_by_number_field (nf\<lparr>lte := None\<rparr>) f"
    by (auto simp add: filter_by_number_field_def)
  have g: "gt nf = Some 0 \<longrightarrow>
      (\<forall>v. NumGt f v \<notin> set (filter_by_number_field nf f)) \<and>
      (\<not> truthy_float (eq nf) \<and> gte nf = Some d \<and> d \<noteq> 0 \<longrightarrow>
         NumGe f d \<in> set (filter_by_number_field nf f)) \<and>
      filter_by_number_field nf f = filter_by_number_field (nf\<lparr>gt := None\<rparr>) f"
    by (auto simp add: filter_by_number_field_def)
  have ge: "gte nf = Some 0 \<longrightarrow>
      (\<forall>v. NumGe f v \<notin> set (filter_by_number_field nf f)) \<and>
      filter_by_number_field nf f = filter_by_number_field (nf\<lparr>gte := None\<rparr>) f"
    by (auto simp add: filter_by_number_field_def)
  from e l le g ge show ?thesis by (intro conjI)
qed

theorem number_filter_zero_is_absent_witness:
  "NumEq (Column Parcels ''area_ha'') 0 \<notin> set (filter_by_number_field
      \<lparr>eq = Some 0, gt = Some 2, gte = None, lt = None, lte = Some 7\<rparr>
      (Column Parcels ''area_ha'')) \<and>
   NumLe (Column Parcels ''area_ha'') 7 \<in> set (filter_by_number_field
      \<lparr>eq = Some 0, gt = Some 2, gte = None, lt = None, lte = Some 7\<rparr>
      (Column Parcels ''area_ha'')) \<and>
   NumGt (Column Parcels ''area_ha'') 2 \<in> set (filter_by_number_field
      \<lparr>eq = Some 0, gt = Some 2, gte = None, lt = None, lte = Some 7\<rparr>
      (Column Parcels ''area_ha'')) \<and>
   length (filter_by_number_field
      \<lparr>eq = Some 0, gt = Some 2, gte = None, lt = None, lte = Some 7\<rparr>
      (Column Parcels ''area_ha'')) = 2 \<and>
   NumGt (Column Parcels ''area_ha'') 0 \<notin> set (filter_by_number_field
      \<lparr>eq = None, gt = Some 0, gte = Some 4, lt = None, lte = Some 7\<rparr>
      (Column Parcels ''area_ha'')) \<and>
   NumGe (Column Parcels ''area_ha'') 4 \<in> set (filter_by_number_field
      \<lparr>eq = None, gt = Some 0, gte = Some 4, lt = None, lte = Some 7\<rparr>
      (Column Parcels ''area_ha''))"
proof -
  let ?f = "Column Parcels ''area_ha''"
  let ?a = "\<lparr>eq = Some 0, gt = Some 2, gte = None, lt = None, lte = Some (7::real)\<rparr>"
  let ?b = "\<lparr>eq = None, gt = Some 0, gte = Some 4, lt = None, lte = Some (7::real)\<rparr>"
  from number_filter_zero_is_absent [of ?a ?f 0 7 2 0, simplified]
  have a1: "\<forall>v. NumEq ?f v \<notin> set (filter_by_number_field ?a ?f)"
    and a2: "NumLe ?f 7 \<in> set (filter_by_number_field ?a ?f)"
    and a3: "NumGt ?f 2 \<in> set (filter_by_number_field ?a ?f)"
    and a4': "length (filter_by_number_field ?a ?f) = Suc (Suc 0)"
    by blast+
  from a4' have a4: "length (filter_by_number_field ?a ?f) = 2" by simp
  from number_filter_zero_is_absent [of ?b ?f 0 0 0 4, simplified]
  have b1: "\<forall>v. NumGt ?f v \<notin> set (filter_by_number_field ?b ?f)"
    and b2: "NumGe ?f 4 \<in> set (filter_by_number_field ?b ?f)"
    by blast+
  from a1 have a0: "NumEq ?f 0 \<notin> set (filter_by_number_field ?a ?f)" by (rule spec)
  from b1 have b0: "NumGt ?f 0 \<notin> set (filter_by_number_field ?b ?f)" by (rule spec)
  from a0 a2 a3 a4 b0 b2 show ?thesis by (intro conjI)
qed

text \<open>
  Claim C4, as amended. A string filter yields at most one predicate on the named field.
  The first of \<open>exact\<close>, \<open>starts\<close>, \<open>contains\<close> that is set and not the empty string is
  applied and the others are ignored: \<open>exact\<close> compares the lower-cased field with the
  value lower-cased by \<open>str.lower()\<close>, \<open>starts\<close> and \<open>contains\<close> apply the case-insensitive
  prefix and substring operators to the value as given. A filter in which each of the
  three is unset or empty yields no predicate.
\<close>

theorem string_filter_precedence:
  "length (filter_by_string_field str_lower sf f) \<le> 1 \<and>
   (exact sf = Some e \<and> e \<noteq> [] \<longrightarrow>
      filter_by_string_field str_lower sf f = [LowerEquals f (str_lower e)]) \<and>
   (\<not> truthy_str (exact sf) \<and> starts sf = Some s \<and> s \<noteq> [] \<longrightarrow>
      filter_by_string_field str_lower sf f = [IStartsWith f s]) \<and>
   (\<not> truthy_str (exact sf) \<and> \<not> truthy_str (starts sf) \<and> contains sf = Some c \<and> c \<noteq> [] \<longrightarrow>
      filter_by_string_field str_lower sf f = [IContains f c]) \<and>
   (\<not> truthy_str (exact sf) \<and> \<not> truthy_str (starts sf) \<and> \<not> truthy_str (contains sf) \<longrightarrow>
      filter_by_string_field str_lower sf f = [])"
  by (auto simp add: filter_by_string_field_def)

theorem string_filter_precedence_witness:
  "filter_by_string_field example_str_lower
      \<lparr>contains = Some ''c'', exact = Some ''Vilnius'', starts = Some ''s''\<rparr>
      (Column Counties ''name'') = [LowerEquals (Column Counties ''name'') ''vilnius''] \<and>
   filter_by_string_field example_str_lower
      \<lparr>contains = Some ''c'', exact = None, starts = Some ''s''\<rparr>
      (Column Counties ''name'') = [IStartsWith (Column Counties ''name'') ''s''] \<and>
   filter_by_string_field example_str_lower
      \<lparr>contains = Some ''c'', exact = None, starts = None\<rparr>
      (Column Counties ''name'') = [IContains (Column Counties ''name'') ''c''] \<and>
   filter_by_string_field example_str_lower
      \<lparr>contains = None, exact = None, starts = None\<rparr>
      (Column Counties ''name'') = []"
  using string_filter_precedence
          [of example_str_lower
              "\<lparr>contains = Some ''c'', exact = Some ''Vilnius'', starts = Some ''s''\<rparr>"
              "Column Counties ''name''" "''Vilnius''" "''''" "''''"]
        string_filter_precedence
          [of example_str_lower "\<lparr>contains = Some ''c'', exact = None, starts = Some ''s''\<rparr>"
              "Column Counties ''name''" "''''" "''s''" "''''"]
        string_filter_precedence
          [of example_str_lower "\<lparr>contains = Some ''c'', exact = None, starts = None\<rparr>"
              "Column Counties ''name''" "''''" "''''" "''c''"]
        string_filter_precedence
          [of example_str_lower "\<lparr>contains = None, exact = None, starts = None\<rparr>"
              "Column Counties ''name''" "''''" "''''" "''''"]
  by (simp add: example_str_lower_def lower_char_def)

text \<open>
  With \<open>exact\<close> present but empty, the first option present is not the one applied:
  \<open>{exact: "", starts: "a"}\<close> yields the prefix predicate.
\<close>

theorem string_filter_empty_exact_counterexample:
  "filter_by_string_field example_str_lower
      \<lparr>contains = None, exact = Some '''', starts = Some ''a''\<rparr>
      (Column Counties ''name'') = [IStartsWith (Column Counties ''name'') ''a''] \<and>
   filter_by_string_field example_str_lower
      \<lparr>contains = None, exact = Some '''', starts = Some ''a''\<rparr>
      (Column Counties ''name'') \<noteq> [LowerEquals (Column Counties ''name'') '''']"
  by (simp add: filter_by_string_field_def)

text \<open>
  Claim C5, as amended. A string filter with only \<open>contains\<close> set, to the empty string,
  yields no predicate at all: the empty string counts as absent, and the filter puts no
  condition on the field.
\<close>

theorem string_filter_contains_empty:
  "filter_by_string_field str_lower \<lparr>contains = Some '''', exact = None, starts = None\<rparr> f = []"
  by (simp add: filter_by_string_field_def)

text \<open>
  There is no resulting predicate to match the non-null values: the filter yields
  nothing, and in particular not the substring predicate on the empty string.
\<close>

theorem string_filter_contains_empty_counterexample:
  "filter_by_string_field example_str_lower \<lparr>contains = Some '''', exact = None, starts = None\<rparr>
      (Column Counties ''name'') \<noteq> [IContains (Column Counties ''name'') ''''] \<and>
   set (filter_by_string_field example_str_lower \<lparr>contains = Some '''', exact = None, starts = None\<rparr>
      (Column Counties ''name'')) = {}"
  by (simp add: filter_by_string_field_def)

section \<open>The geometry filter\<close>



section \<open>The geometry column of the projection\<close>

text \<open>
  Claim C7, as amended. Counties and rooms project the geometry label exactly when an SRID
  other than 0 and a format are both requested: the geometry field transformed to that
  SRID, typed by the format; otherwise their projection holds no geometry. Addresses and
  parcels call the geometry label without a test: with a format the projection holds it,
  whatever the SRID, and without a format building the statement raises \<open>ValueError\<close>.
  Municipalities, elderships, residential areas and streets project no geometry when the
  SRID is absent or 0.
\<close>

theorem geometry_projection:
  "(truthy_int srid \<and> get_geometry_output_type fmt = Inr t \<longrightarrow>
      (\<exists>q. get_select_query CountiesService srid fmt = Inr q \<and>
           geometry_columns q =
             [GeometryLabel (ST_Transform (GeomColumn (Column Counties ''geom'')) srid) t]) \<and>
      (\<exists>q. get_select_query RoomsService srid fmt = Inr q \<and>
           geometry_columns q =
             [GeometryLabel (ST_Transform (GeomColumn (Column Addresses ''geom'')) srid) t])) \<and>
   (\<not> truthy_int srid \<or> fmt = None \<longrightarrow>
      (\<exists>q. get_select_query CountiesService srid fmt = Inr q \<and> geometry_columns q = []) \<and>
      (\<exists>q. get_select_query RoomsService srid fmt = Inr q \<and> geometry_columns q = [])) \<and>
   (get_geometry_output_type fmt = Inr t \<longrightarrow>
      (\<exists>q. get_select_query AddressesService srid fmt = Inr q \<and>
           geometry_columns q =
             [GeometryLabel (ST_Transform (GeomColumn (Column Addresses ''geom'')) srid) t]) \<and>
      (\<exists>q. get_select_query ParcelsService srid fmt = Inr q \<and>
           geometry_columns q =
             [GeometryLabel (ST_Transform (GeomColumn (Column Parcels ''geom'')) srid) t])) \<and>
   (fmt = None \<longrightarrow>
      get_select_query AddressesService srid fmt =
        Inl (ValueError ''Unable to map geometry output format None'') \<and>
      get_select_query ParcelsService srid fmt =
        Inl (ValueError ''Unable to map geometry output format None'')) \<and>
   (\<not> truthy_int srid \<and>
    self \<in> {MunicipalitiesService, EldershipsService, ResidentialAreasService, StreetsService}
      \<longrightarrow> (\<exists>q. get_select_query self srid fmt = Inr q \<and> geometry_columns q = []))"
proof -
  have a: "truthy_int srid \<and> get_geometry_output_type fmt = Inr t \<longrightarrow>
      (\<exists>q. get_select_query CountiesService srid fmt = Inr q \<and>
           geometry_columns q =
             [GeometryLabel (ST_Transform (GeomColumn (Column Counties ''geom'')) srid) t]) \<and>
      (\<exists>q. get_select_query RoomsService srid fmt = Inr q \<and>
           geometry_columns q =
             [GeometryLabel (ST_Transform (GeomColumn (Column Addresses ''geom'')) srid) t])"
    by (cases fmt)
       (auto simp add: get_geometry_field_def geometry_columns_def select_stmt_def)
  have b: "\<not> truthy_int srid \<or> fmt = None \<longrightarrow>
      (\<exists>q. get_select_query CountiesService srid fmt = Inr q \<and> geometry_columns q = []) \<and>
      (\<exists>q. get_select_query RoomsService srid fmt = Inr q \<and> geometry_columns q = [])"
    by (auto simp add: geometry_columns_def select_stmt_def)
  have c: "get_geometry_output_type fmt = Inr t \<longrightarrow>
      (\<exists>q. get_select_query AddressesService srid fmt = Inr q \<and>
           geometry_columns q =
             [GeometryLabel (ST_Transform (GeomColumn (Column Addresses ''geom'')) srid) t]) \<and>
      (\<exists>q. get_select_query ParcelsService srid fmt = Inr q \<and>
           geometry_columns q =
             [GeometryLabel (ST_Transform (GeomColumn (Column Parcels ''geom'')) srid) t])"
    by (auto simp add: get_geometry_field_def geometry_columns_def select_stmt_def)
  have d: "fmt = None \<longrightarrow>
      get_select_query AddressesService srid fmt =
        Inl (ValueError ''Unable to map geometry output format None'') \<and>
      get_select_query ParcelsService srid fmt =
        Inl (ValueError ''Unable to map geometry output format None'')"
    by (auto simp add: get_geometry_field_def)
  have e: "\<not> truthy_int srid \<and>
    self \<in> {MunicipalitiesService, EldershipsService, ResidentialAreasService, StreetsService}
      \<longrightarrow> (\<exists>q. get_select_query self srid fmt = Inr q \<and> geometry_columns q = [])"
    by (auto simp add: geometry_columns_def select_stmt_def)
  from a b c d e show ?thesis by (intro conjI)
qed

theorem geometry_projection_witness:
  "(\<exists>q. get_select_query CountiesService (Some 4326) (Some ewkt_format) = Inr q \<and>
        geometry_columns q =
          [GeometryLabel (ST_Transform (GeomColumn (Column Counties ''geom'')) (Some 4326))
             EWKTGeometry]) \<and>
   (\<exists>q. get_select_query RoomsService None (Some ewkb_format) = Inr q \<and>
        geometry_columns q = []) \<and>
   (\<exists>q. get_select_query ParcelsService None (Some ewkb_format) = Inr q \<and>
        geometry_columns q =
          [GeometryLabel (ST_Transform (GeomColumn (Column Parcels ''geom'')) None)
             GeometryType]) \<and>
   get_select_query AddressesService (Some 4326) None =
     Inl (ValueError ''Unable to map geometry output format None'') \<and>
   (\<exists>q. get_select_query StreetsService None (Some ewkt_format) = Inr q \<and>
        geometry_columns q = [])"
  using geometry_projection [of "Some 4326" "Some ewkt_format" EWKTGeometry StreetsService]
        geometry_projection [of None "Some ewkb_format" GeometryType StreetsService]
        geometry_projection [of "Some 4326" None EWKTGeometry StreetsService]
        geometry_projection [of None "Some ewkt_format" EWKTGeometry StreetsService]
  by simp

text \<open>
  Rooms do not include geometry unconditionally: without SRID and format their projection
  has none. And a municipality query with both SRID and format does not get its geometry
  column: the two-argument call of the three-parameter helper raises \<open>TypeError\<close>.
\<close>

theorem geometry_projection_counterexample:
  "(case get_select_query RoomsService None None of
      Inl e \<Rightarrow> False
    | Inr q \<Rightarrow> geometry_columns q = []) \<and>
   get_select_query MunicipalitiesService (Some 4326) (Some ewkt_format) =
     Inl (TypeError ''_get_geometry_field() missing 1 required positional argument'')"
  by (simp add: geometry_columns_def select_stmt_def missing_argument_def)

section \<open>Ordering and counting the rows of a statement\<close>

lemma key_le_total: "\<not> key_le db k a b \<Longrightarrow> key_le db k b a"
  by (cases k; cases "snd k") auto

lemma key_le_trans: "key_le db k a b \<Longrightarrow> key_le db k b c \<Longrightarrow> key_le db k a c"
  by (cases k; cases "snd k") auto

lemma rows_le_total: "\<not> rows_le db ks a b \<Longrightarrow> rows_le db ks b a"
proof (induction ks)
  case Nil
  then show ?case by simp
next
  case (Cons k ks)
  then show ?case using key_le_total [of db k a b] by auto
qed

lemma rows_le_trans: "rows_le db ks a b \<Longrightarrow> rows_le db ks b c \<Longrightarrow> rows_le db ks a c"
proof (induction ks)
  case Nil
  then show ?case by simp
next
  case (Cons k ks)
  from Cons.prems have ab: "key_le db k a b" and bc: "key_le db k b c" by simp_all
  have ac: "key_le db k a c" using ab bc by (rule key_le_trans)
  have "rows_le db ks a c" if ca: "key_le db k c a"
  proof -
    have "key_le db k c b" using ca ab by (rule key_le_trans)
    with Cons.prems have 1: "rows_le db ks b c" by simp
    have "key_le db k b a" using bc ca by (rule key_le_trans)
    with Cons.prems have 2: "rows_le db ks a b" by simp
    from 2 1 show ?thesis by (rule Cons.IH)
  qed
  with ac show ?case by simp
qed

lemma set_insert_row: "set (insert_row db ks x xs) = insert x (set xs)"
  by (induction xs) auto

lemma sorted_insert_row:
  "sorted_wrt (rows_le db ks) xs \<Longrightarrow> sorted_wrt (rows_le db ks) (insert_row db ks x xs)"
proof (induction xs)
  case Nil
  then show ?case by simp
next
  case (Cons y ys)
  show ?case
  proof (cases "rows_le db ks x y")
    case True
    then have "\<forall>z \<in> set ys. rows_le db ks x z"
      using Cons.prems by (auto intro: rows_le_trans)
    with True Cons.prems show ?thesis by simp
  next
    case False
    then have "rows_le db ks y x" by (rule rows_le_total)
    with False Cons show ?thesis by (auto simp: set_insert_row)
  qed
qed

lemma sorted_sort_rows: "sorted_wrt (rows_le db ks) (sort_rows db ks xs)"
  unfolding sort_rows_def by (induction xs) (auto intro: sorted_insert_row)

lemma count_insert_row: "count_list (insert_row db ks x xs) r = count_list (x # xs) r"
  by (induction xs) auto

lemma count_sort_rows: "count_list (sort_rows db ks xs) r = count_list xs r"
  unfolding sort_rows_def by (induction xs) (auto simp: count_insert_row)

lemma count_filter: "count_list (filter P xs) r = (if P r then count_list xs r else 0)"
  by (induction xs) auto

lemma length_insert_row: "length (insert_row db ks x xs) = Suc (length xs)"
  by (induction xs) auto

lemma length_sort_rows: "length (sort_rows db ks xs) = length xs"
  unfolding sort_rows_def by (induction xs) (auto simp: length_insert_row)

lemma sort_rows_no_order: "sort_rows db [] xs = xs"
proof (induction xs)
  case Nil
  then show ?case by (simp add: sort_rows_def)
next
  case (Cons x xs)
  then show ?case by (cases xs) (auto simp: sort_rows_def)
qed

lemma count_execute:
  "count_list (execute db q) r =
     (if selected db q r then count_list (from_rows db (select_from q)) r else 0)"
  by (simp add: execute_def count_sort_rows count_filter)

lemma select_from_get_select_query:
  "get_select_query self srid fmt = Inr q \<Longrightarrow>
     select_from q = model_class self \<and> where_criteria q = [] \<and> order_by_clauses q = []"
  by (cases self) (auto simp: select_stmt_def split: if_splits sum.splits)

section \<open>Lookup by code\<close>

text \<open>
  Claim C9. The code filter of parcels returns the statement unchanged, so \<open>get_by_code\<close>
  does not depend on the code: where the projection can be built, the statement has no
  where criterion, it returns every parcel row, and \<open>get_by_code\<close> returns the first of
  them.
\<close>

theorem parcels_get_by_code_unfiltered:
  "filter_by_code ParcelsService query code = query \<and>
   get_by_code ParcelsService db code fmt srid = get_by_code ParcelsService db code' fmt srid \<and>
   (get_select_query ParcelsService srid fmt = Inr q \<longrightarrow>
      where_criteria q = [] \<and>
      execute db q = from_rows db Parcels \<and>
      get_by_code ParcelsService db code fmt srid = Inr (first (from_rows db Parcels)))"
proof -
  have same: "get_by_code ParcelsService db code fmt srid
                = get_by_code ParcelsService db code' fmt srid"
    by (simp add: get_by_code_def del: get_select_query.simps split: sum.splits)
  have rest: "where_criteria q = [] \<and> execute db q = from_rows db Parcels \<and>
      get_by_code ParcelsService db code fmt srid = Inr (first (from_rows db Parcels))"
    if q: "get_select_query ParcelsService srid fmt = Inr q"
  proof -
    from select_from_get_select_query [OF q]
    have ex: "execute db q = from_rows db Parcels" and w: "where_criteria q = []"
      by (simp_all add: execute_def selected_def sort_rows_no_order)
    from q ex have "get_by_code ParcelsService db code fmt srid
                      = Inr (first (from_rows db Parcels))"
      by (simp add: get_by_code_def del: get_select_query.simps)
    with ex w show ?thesis by simp
  qed
  from same rest show ?thesis by simp
qed

theorem parcels_get_by_code_unfiltered_witness:
  "map_sum id (map_option (\<lambda>r. r (Column Parcels ''unique_number'')))
     (get_by_code ParcelsService (example_session [] example_tables) 9 (Some ewkt_format) None)
   = Inr (Some (Number 7))"
proof -
  obtain q where q: "get_select_query ParcelsService None (Some ewkt_format) = Inr q"
    by (simp add: get_geometry_field_def)
  from parcels_get_by_code_unfiltered
         [of "select_stmt [] Parcels []" 9 "example_session [] example_tables" "Some ewkt_format" None 9 q] q
  have "get_by_code ParcelsService (example_session [] example_tables) 9 (Some ewkt_format) None
          = Inr (first (from_rows (example_session [] example_tables) Parcels))"
    by blast
  then show ?thesis
    by (simp add: example_session_def example_tables_def first_def parcel_def example_row_def)
qed

section \<open>The statement that search builds\<close>

lemma loop_all_succeed:
  "\<forall>f \<in> set fs. \<exists>ps. bf f db = Inr ps \<Longrightarrow>
   search_filters_loop bf db fs acc =
     Inr (acc @ map and_clause (filter (\<lambda>ps. ps \<noteq> []) (map (\<lambda>f. projr (bf f db)) fs)))"
proof (induction fs arbitrary: acc)
  case Nil
  then show ?case by simp
next
  case (Cons f fs)
  then obtain ps where ps: "bf f db = Inr ps" by auto
  from Cons.prems have rest: "\<forall>f \<in> set fs. \<exists>ps. bf f db = Inr ps" by simp
  show ?case using ps Cons.IH [OF rest] by simp
qed

lemma search_query_parts:
  assumes "search_query self db sort_by_field sort_order request boundaries_filter srid fmt = Inr q"
  shows "\<exists>cs ty. search_filters_loop boundaries_filter db (filters request) [] = Inr cs \<and>
           column_type_of (model_class self) sort_by_field = Some ty \<and>
           where_criteria q = [or_clause cs] \<and>
           select_from q = model_class self \<and>
           order_by_clauses q =
             (if sort_by_field = ''room_number'' \<or> sort_by_field = ''plot_or_building_number''
              then [(Times (Column (model_class self) sort_by_field) 1, sort_order)] else [])
             @ [(if ty = String then Collate (Column (model_class self) sort_by_field) ''NOCASE''
                 else SortColumn (Column (model_class self) sort_by_field), sort_order)]
             @ (if hasattr (model_class self) ''code''
                then [(SortColumn (Column (model_class self) ''code''), asc)] else [])"
proof -
  from assms obtain q0 where q0: "get_select_query self srid fmt = Inr q0"
    by (auto simp add: search_query_def simp del: get_select_query.simps split: sum.splits)
  from assms q0 obtain cs where
    cs: "search_filters_loop boundaries_filter db (filters request) [] = Inr cs"
    by (auto simp add: search_query_def simp del: get_select_query.simps split: sum.splits)
  from assms q0 cs obtain ty where
    ty: "column_type_of (model_class self) sort_by_field = Some ty"
    by (auto simp add: search_query_def simp del: get_select_query.simps split: option.splits)
  note base = select_from_get_select_query [OF q0]
  have dir: "(if sort_order = desc then desc else asc) = sort_order"
    by (cases sort_order) simp_all
  from assms q0 cs ty base dir show ?thesis
    by (cases sort_order)
       (auto simp add: search_query_def Let_def where_clause_def order_by_def
             simp del: get_select_query.simps)
qed

lemma holds_and_clause: "holds sat r (and_clause ps) = (\<forall>p \<in> set ps. sat r p)"
  by (simp add: and_clause_def)

lemma holds_or_clause: "holds sat r (or_clause cs) = (\<exists>c \<in> set cs. holds sat r c)"
  by (simp add: or_clause_def)

lemma blank_or_clause: "blank (or_clause cs) = (cs = [])"
  by (cases cs) (simp_all add: or_clause_def)

lemma county_eq: "county a n = county b m \<longleftrightarrow> a = b \<and> n = m"
proof
  assume e: "county a n = county b m"
  then have "county a n (Column Counties ''code'') = county b m (Column Counties ''code'')"
    and "county a n (Column Counties ''name'') = county b m (Column Counties ''name'')"
    by simp_all
  then show "a = b \<and> n = m" by (simp add: county_def example_row_def)
qed simp

lemmas ex_defs = CountiesFilter_apply_def BaseFilter_apply_def then_yield_def
  apply_general_boundaries_filter_def filter_by_string_field_def hasattr_def
  column_type_of_def BaseBoundaries_columns_def group_codes_def group_name_exact_def
  group_empty_def

text \<open>
  Claim C1. For a request whose filter groups all materialize, the statement's only where
  criterion is the \<open>or_\<close> of one \<open>and_\<close> clause per group with a non-empty predicate list,
  in order; groups with an empty list contribute nothing. Hence a row that makes every
  predicate of some non-empty group true is returned as often as the FROM clause holds
  it, exactly once when that is once, however many groups it satisfies; and when some
  group is non-empty, a row that satisfies no non-empty group is not returned.
\<close>

theorem search_or_of_and:
  assumes "\<forall>f \<in> set (filters request). \<exists>ps. boundaries_filter f db = Inr ps"
    and "search_query self db sort_by_field sort_order request boundaries_filter srid fmt = Inr q"
  shows "where_criteria q =
           [or_clause (map and_clause (filter (\<lambda>ps. ps \<noteq> [])
              (map (\<lambda>f. projr (boundaries_filter f db)) (filters request))))] \<and>
         search paginate self db sort_by_field sort_order request boundaries_filter srid fmt
           = Inr (paginate (execute db q)) \<and>
         ((\<exists>f \<in> set (filters request). \<exists>ps. boundaries_filter f db = Inr ps \<and> ps \<noteq> [] \<and>
              (\<forall>p \<in> set ps. is_true db r p)) \<longrightarrow>
            count_list (execute db q) r = count_list (from_rows db (model_class self)) r \<and>
            (count_list (from_rows db (model_class self)) r = 1 \<longrightarrow>
               count_list (execute db q) r = 1)) \<and>
         ((\<exists>f \<in> set (filters request). boundaries_filter f db \<noteq> Inr []) \<and>
          \<not> (\<exists>f \<in> set (filters request). \<exists>ps. boundaries_filter f db = Inr ps \<and> ps \<noteq> [] \<and>
              (\<forall>p \<in> set ps. is_true db r p)) \<longrightarrow>
            r \<notin> set (execute db q))"
proof -
  let ?groups = "filter (\<lambda>ps. ps \<noteq> [])
                   (map (\<lambda>f. projr (boundaries_filter f db)) (filters request))"
  have "search_filters_loop boundaries_filter db (filters request) [] =
          Inr ([] @ map and_clause ?groups)"
    using assms(1)
    by (rule loop_all_succeed [where bf = boundaries_filter and db = db])
  with search_query_parts [OF assms(2)]
  have w: "where_criteria q = [or_clause (map and_clause ?groups)]"
    and m: "select_from q = model_class self"
    by auto
  have s: "search paginate self db sort_by_field sort_order request boundaries_filter srid fmt
             = Inr (paginate (execute db q))"
    using assms(2) by (simp add: search_def)
  have sel: "selected db q r \<longleftrightarrow>
               ?groups = [] \<or> (\<exists>ps \<in> set ?groups. \<forall>p \<in> set ps. is_true db r p)"
    by (auto simp add: selected_def w blank_or_clause holds_or_clause holds_and_clause)
  have grp: "ps \<in> set ?groups \<longleftrightarrow>
               (\<exists>f \<in> set (filters request). boundaries_filter f db = Inr ps) \<and> ps \<noteq> []" for ps
    using assms(1) by force
  have hit: "count_list (execute db q) r = count_list (from_rows db (model_class self)) r"
    if "\<exists>f \<in> set (filters request). \<exists>ps. boundaries_filter f db = Inr ps \<and> ps \<noteq> [] \<and>
              (\<forall>p \<in> set ps. is_true db r p)"
  proof -
    from that grp have "\<exists>ps \<in> set ?groups. \<forall>p \<in> set ps. is_true db r p" by blast
    with sel have "selected db q r" by blast
    then show ?thesis by (simp add: count_execute m)
  qed
  have miss: "r \<notin> set (execute db q)"
    if some: "\<exists>f \<in> set (filters request). boundaries_filter f db \<noteq> Inr []"
      and none: "\<not> (\<exists>f \<in> set (filters request). \<exists>ps. boundaries_filter f db = Inr ps \<and>
                      ps \<noteq> [] \<and> (\<forall>p \<in> set ps. is_true db r p))"
  proof -
    from some assms(1) obtain f ps where "f \<in> set (filters request)"
      "boundaries_filter f db = Inr ps" "ps \<noteq> []" by force
    with grp have "?groups \<noteq> []" by (metis empty_iff list.set(1))
    moreover from none grp have "\<not> (\<exists>ps \<in> set ?groups. \<forall>p \<in> set ps. is_true db r p)"
      by blast
    ultimately have "\<not> selected db q r" using sel by blast
    then have "count_list (execute db q) r = 0" by (simp add: count_execute)
    then show ?thesis by (simp add: count_list_0_iff)
  qed
  from w s hit miss show ?thesis by simp
qed

theorem search_or_of_and_witness:
  "\<exists>q. search_query CountiesService (example_session [] example_tables) ''code'' asc
          \<lparr>filters = [group_codes [1], group_empty, group_name_exact ''Kaunas'']\<rparr>
          (CountiesFilter_apply example_str_lower CountiesFilter) None None = Inr q \<and>
        where_criteria q =
          [Or [And [Atom (IsIn (Column Counties ''code'') [1])],
               And [Atom (LowerEquals (Column Counties ''name'') ''kaunas'')]]] \<and>
        count_list (execute (example_session [] example_tables) q) (county 1 ''Vilnius'') = 1 \<and>
        count_list (execute (example_session [] example_tables) q) (county 2 ''Kaunas'') = 1 \<and>
        county 3 ''Alytus'' \<notin> set (execute (example_session [] example_tables) q)"
proof -
  let ?db = "example_session [] example_tables"
  let ?req = "\<lparr>filters = [group_codes [1], group_empty, group_name_exact ''Kaunas'']\<rparr>"
  let ?bf = "CountiesFilter_apply example_str_lower CountiesFilter"
  have g1: "?bf (group_codes [1]) ?db = Inr [IsIn (Column Counties ''code'') [1]]"
    and g2: "?bf group_empty ?db = Inr []"
    and g3: "?bf (group_name_exact ''Kaunas'') ?db
               = Inr [LowerEquals (Column Counties ''name'') ''kaunas'']"
    by (simp_all add: ex_defs example_str_lower_def lower_char_def)
  have h1: "\<forall>f \<in> set (filters ?req). \<exists>ps. ?bf f ?db = Inr ps"
    by (simp add: g1 g2 g3)
  obtain q where h2: "search_query CountiesService ?db ''code'' asc ?req ?bf None None = Inr q"
    by (simp add: search_query_def Let_def hasattr_def g1 g2 g3 column_type_of_def
          BaseBoundaries_columns_def)
  have rows: "from_rows ?db Counties =
                [county 1 ''Vilnius'', county 2 ''Kaunas'', county 3 ''Alytus'']"
    by (simp add: example_session_def example_tables_def)
  have t1: "is_true ?db (county 1 ''Vilnius'') (IsIn (Column Counties ''code'') [1])"
    and t2: "is_true ?db (county 2 ''Kaunas'') (LowerEquals (Column Counties ''name'') ''kaunas'')"
    and t3: "\<not> is_true ?db (county 3 ''Alytus'') (IsIn (Column Counties ''code'') [1])"
    and t4: "\<not> is_true ?db (county 3 ''Alytus'')
                 (LowerEquals (Column Counties ''name'') ''kaunas'')"
    by (simp_all add: example_session_def county_def example_row_def lower_def lower_char_def)
  from search_or_of_and [OF h1 h2, of id "county 1 ''Vilnius''"] t1
  have c1: "count_list (execute ?db q) (county 1 ''Vilnius'') = 1"
    and w: "where_criteria q =
          [Or [And [Atom (IsIn (Column Counties ''code'') [1])],
               And [Atom (LowerEquals (Column Counties ''name'') ''kaunas'')]]]"
    by (simp_all add: g1 g2 g3 rows county_eq or_clause_def and_clause_def)
  from search_or_of_and [OF h1 h2, of id "county 2 ''Kaunas''"] t2
  have c2: "count_list (execute ?db q) (county 2 ''Kaunas'') = 1"
    by (simp add: g1 g2 g3 rows county_eq)
  from search_or_of_and [OF h1 h2, of id "county 3 ''Alytus''"] t3 t4
  have c3: "county 3 ''Alytus'' \<notin> set (execute ?db q)"
    by (simp add: g1 g2 g3)
  from h2 w c1 c2 c3 show ?thesis by blast
qed

text \<open>
  Claim C2, as amended. For a request without filter groups, and likewise when every
  group yields an empty predicate list, the where criterion is \<open>or_()\<close> without
  arguments, which restricts nothing: the search returns every row of the entity's FROM
  clause, each as often as it is there.
\<close>

theorem search_without_predicates:
  assumes "\<forall>f \<in> set (filters request). boundaries_filter f db = Inr []"
    and "search_query self db sort_by_field sort_order request boundaries_filter srid fmt = Inr q"
  shows "where_criteria q = [or_clause []] \<and>
         search paginate self db sort_by_field sort_order request boundaries_filter srid fmt
           = Inr (paginate (execute db q)) \<and>
         (\<forall>r. count_list (execute db q) r = count_list (from_rows db (model_class self)) r) \<and>
         length (execute db q) = length (from_rows db (model_class self))"
proof -
  have loop: "search_filters_loop boundaries_filter db fs acc = Inr acc"
    if "\<forall>f \<in> set fs. boundaries_filter f db = Inr []" for fs acc
    using that by (induction fs arbitrary: acc) simp_all
  from search_query_parts [OF assms(2)] loop [OF assms(1), of "[]"]
  have w: "where_criteria q = [or_clause []]" and m: "select_from q = model_class self"
    by auto
  have s: "search paginate self db sort_by_field sort_order request boundaries_filter srid fmt
             = Inr (paginate (execute db q))"
    using assms(2) by (simp add: search_def)
  have sel: "selected db q r" for r
    by (simp add: selected_def w blank_or_clause)
  then have f: "filter (selected db q) xs = xs" for xs by simp
  have c: "count_list (execute db q) r = count_list (from_rows db (model_class self)) r" for r
    by (simp add: count_execute sel m)
  have l: "length (execute db q) = length (from_rows db (model_class self))"
    by (simp add: execute_def length_sort_rows f m)
  from w s c l show ?thesis by simp
qed

theorem search_without_predicates_witness:
  "search length CountiesService (example_session [] example_tables) ''name'' desc
     \<lparr>filters = [group_empty]\<rparr> (CountiesFilter_apply example_str_lower CountiesFilter)
     None None = Inr 3"
proof -
  let ?db = "example_session [] example_tables"
  let ?req = "\<lparr>filters = [group_empty]\<rparr>"
  let ?bf = "CountiesFilter_apply example_str_lower CountiesFilter"
  have g: "?bf group_empty ?db = Inr []" by (simp add: ex_defs)
  then have h1: "\<forall>f \<in> set (filters ?req). ?bf f ?db = Inr []" by simp
  obtain q where h2: "search_query CountiesService ?db ''name'' desc ?req ?bf None None = Inr q"
    by (simp add: search_query_def Let_def hasattr_def g column_type_of_def
          BaseBoundaries_columns_def)
  have rows: "length (from_rows ?db Counties) = 3"
    by (simp add: example_session_def example_tables_def)
  from search_without_predicates [OF h1 h2, of length] rows show ?thesis by simp
qed

text \<open>
  With no filter groups the search over the three example counties returns three items,
  not zero.
\<close>

theorem empty_filter_list_counterexample:
  "search length CountiesService (example_session [] example_tables) ''code'' asc
     (\<lparr>filters = []\<rparr> :: CountiesSearchFilterRequest BaseSearchRequest)
     (CountiesFilter_apply example_str_lower CountiesFilter) None None = Inr 3 \<and>
   search length CountiesService (example_session [] example_tables) ''code'' asc
     (\<lparr>filters = []\<rparr> :: CountiesSearchFilterRequest BaseSearchRequest)
     (CountiesFilter_apply example_str_lower CountiesFilter) None None \<noteq> Inr 0"
  by (simp add: search_def search_query_def Let_def hasattr_def column_type_of_def
        BaseBoundaries_columns_def execute_def length_sort_rows selected_def where_clause_def
        order_by_def select_stmt_def or_clause_def example_session_def example_tables_def)

section \<open>Sort order\<close>

lemma room_number_column:
  "column_type_of (model_class self) ''room_number'' = Some ty \<Longrightarrow>
     ty = String \<and> hasattr (model_class self) ''code''"
  by (cases self) (simp_all add: column_type_of_def hasattr_def BaseBoundaries_columns_def)

lemma plot_or_building_number_column:
  "column_type_of (model_class self) ''plot_or_building_number'' = Some ty \<Longrightarrow>
     ty = String \<and> hasattr (model_class self) ''code''"
  by (cases self) (simp_all add: column_type_of_def hasattr_def BaseBoundaries_columns_def)

lemma natural_field_column:
  assumes "column_type_of (model_class self) f = Some ty"
    and "f = ''room_number'' \<or> f = ''plot_or_building_number''"
  shows "ty = String \<and> hasattr (model_class self) ''code''"
  using assms room_number_column plot_or_building_number_column by blast

lemma sorted_wrt_first_key:
  "sorted_wrt (rows_le db (k # ks)) xs \<Longrightarrow> sorted_wrt (key_le db k) xs"
  by (rule sorted_wrt_mono_rel [where P = "rows_le db (k # ks)"]) auto

text \<open>
  Claim C8. A search sorted by \<open>room_number\<close> or \<open>plot_or_building_number\<close> orders by the
  field times 1, then by the field under \<open>NOCASE\<close>, both in the requested direction, then
  by \<open>code\<close> ascending. So the rows come out ordered by the number to which the engine
  coerces the field: of two rows with text values, the earlier has the smaller or equal
  number when ascending, the greater or equal when descending. For every entity with a
  \<open>code\<close> column and every sort field, \<open>code\<close> ascending is the last element of the
  ORDER BY list, after the primary key; and the rows returned are sorted by that list.
\<close>

theorem natural_sort_order:
  assumes "search_query self db sort_by_field sort_order request boundaries_filter srid fmt = Inr q"
  shows "(sort_by_field = ''room_number'' \<or> sort_by_field = ''plot_or_building_number'' \<longrightarrow>
            order_by_clauses q =
              [(Times (Column (model_class self) sort_by_field) 1, sort_order),
               (Collate (Column (model_class self) sort_by_field) ''NOCASE'', sort_order),
               (SortColumn (Column (model_class self) ''code''), asc)] \<and>
            sorted_wrt (key_le db (Times (Column (model_class self) sort_by_field) 1, sort_order))
              (execute db q) \<and>
            (\<forall>i j s t. i < j \<and> j < length (execute db q) \<and>
               (execute db q ! i) (Column (model_class self) sort_by_field) = Text s \<and>
               (execute db q ! j) (Column (model_class self) sort_by_field) = Text t \<longrightarrow>
               (if sort_order = asc then text_to_number db s \<le> text_to_number db t
                else text_to_number db t \<le> text_to_number db s))) \<and>
         (hasattr (model_class self) ''code'' \<longrightarrow>
            (\<exists>primary. primary \<noteq> [] \<and>
               order_by_clauses q =
                 primary @ [(SortColumn (Column (model_class self) ''code''), asc)])) \<and>
         sorted_wrt (rows_le db (order_by_clauses q)) (execute db q)"
proof -
  from search_query_parts [OF assms] obtain ty where
    ty: "column_type_of (model_class self) sort_by_field = Some ty"
    and ob: "order_by_clauses q =
             (if sort_by_field = ''room_number'' \<or> sort_by_field = ''plot_or_building_number''
              then [(Times (Column (model_class self) sort_by_field) 1, sort_order)] else [])
             @ [(if ty = String then Collate (Column (model_class self) sort_by_field) ''NOCASE''
                 else SortColumn (Column (model_class self) sort_by_field), sort_order)]
             @ (if hasattr (model_class self) ''code''
                then [(SortColumn (Column (model_class self) ''code''), asc)] else [])"
    by blast
  have srt: "sorted_wrt (rows_le db (order_by_clauses q)) (execute db q)"
    by (simp add: execute_def sorted_sort_rows)
  let ?attr = "Column (model_class self) sort_by_field"
  have nat: "order_by_clauses q =
              [(Times ?attr 1, sort_order), (Collate ?attr ''NOCASE'', sort_order),
               (SortColumn (Column (model_class self) ''code''), asc)] \<and>
            sorted_wrt (key_le db (Times ?attr 1, sort_order)) (execute db q) \<and>
            (\<forall>i j s t. i < j \<and> j < length (execute db q) \<and>
               (execute db q ! i) ?attr = Text s \<and> (execute db q ! j) ?attr = Text t \<longrightarrow>
               (if sort_order = asc then text_to_number db s \<le> text_to_number db t
                else text_to_number db t \<le> text_to_number db s))"
    if f: "sort_by_field = ''room_number'' \<or> sort_by_field = ''plot_or_building_number''"
  proof -
    from natural_field_column [OF ty f] ob f
    have o: "order_by_clauses q =
              [(Times ?attr 1, sort_order), (Collate ?attr ''NOCASE'', sort_order),
               (SortColumn (Column (model_class self) ''code''), asc)]"
      by auto
    from srt have k: "sorted_wrt (key_le db (Times ?attr 1, sort_order)) (execute db q)"
      unfolding o by (rule sorted_wrt_first_key)
    have "if sort_order = asc then text_to_number db s \<le> text_to_number db t
          else text_to_number db t \<le> text_to_number db s"
      if "i < j" "j < length (execute db q)"
        "(execute db q ! i) ?attr = Text s" "(execute db q ! j) ?attr = Text t" for i j s t
    proof -
      from k that(1,2)
      have "key_le db (Times ?attr 1, sort_order) (execute db q ! i) (execute db q ! j)"
        by (simp add: sorted_wrt_iff_nth_less)
      with that(3,4) show ?thesis by (cases sort_order) auto
    qed
    with o k show ?thesis by blast
  qed
  have tie: "\<exists>primary. primary \<noteq> [] \<and>
               order_by_clauses q =
                 primary @ [(SortColumn (Column (model_class self) ''code''), asc)]"
    if "hasattr (model_class self) ''code''"
  proof -
    let ?primary =
      "(if sort_by_field = ''room_number'' \<or> sort_by_field = ''plot_or_building_number''
        then [(Times (Column (model_class self) sort_by_field) 1, sort_order)] else [])
       @ [(if ty = String then Collate (Column (model_class self) sort_by_field) ''NOCASE''
           else SortColumn (Column (model_class self) sort_by_field), sort_order)]"
    have "?primary \<noteq> []" by simp
    moreover have "order_by_clauses q =
        ?primary @ [(SortColumn (Column (model_class self) ''code''), asc)]"
      using that ob by simp
    ultimately show ?thesis by blast
  qed
  from nat tie srt show ?thesis by blast
qed

theorem natural_sort_order_witness:
  "\<exists>q. search_query AddressesService (example_session [] example_tables)
          ''plot_or_building_number'' asc
          (\<lparr>filters = []\<rparr> :: CountiesSearchFilterRequest BaseSearchRequest)
          (CountiesFilter_apply example_str_lower AddressesFilter) (Some 4326)
          (Some ewkt_format) = Inr q \<and>
        order_by_clauses q =
          [(Times (Column Addresses ''plot_or_building_number'') 1, asc),
           (Collate (Column Addresses ''plot_or_building_number'') ''NOCASE'', asc),
           (SortColumn (Column Addresses ''code''), asc)] \<and>
        sorted_wrt (key_le (example_session [] example_tables)
                      (Times (Column Addresses ''plot_or_building_number'') 1, asc))
          (execute (example_session [] example_tables) q) \<and>
        map (\<lambda>r. r (Column Addresses ''plot_or_building_number''))
          (execute (example_session [] example_tables) q)
          = [Text ''1A'', Text ''2'', Text ''10'', Text ''101'']"
proof -
  let ?db = "example_session [] example_tables"
  obtain q where h: "search_query AddressesService ?db ''plot_or_building_number'' asc
          (\<lparr>filters = []\<rparr> :: CountiesSearchFilterRequest BaseSearchRequest)
          (CountiesFilter_apply example_str_lower AddressesFilter) (Some 4326)
          (Some ewkt_format) = Inr q"
    by (simp add: search_query_def Let_def hasattr_def column_type_of_def get_geometry_field_def)
  from natural_sort_order [OF h]
  have o: "order_by_clauses q =
          [(Times (Column Addresses ''plot_or_building_number'') 1, asc),
           (Collate (Column Addresses ''plot_or_building_number'') ''NOCASE'', asc),
           (SortColumn (Column Addresses ''code''), asc)]"
    and k: "sorted_wrt (key_le ?db (Times (Column Addresses ''plot_or_building_number'') 1, asc))
          (execute ?db q)"
    by simp_all
  from search_query_parts [OF h]
  have w: "where_criteria q = [or_clause []]" and m: "select_from q = Addresses" by auto
  have sel: "selected ?db q r" for r by (simp add: selected_def w blank_or_clause)
  have fr: "from_rows ?db Addresses =
              [address 1 ''2'', address 2 ''10'', address 3 ''1A'', address 4 ''101'']"
    by (simp add: example_session_def example_tables_def)
  have e: "execute ?db q =
             sort_rows ?db (order_by_clauses q)
               [address 1 ''2'', address 2 ''10'', address 3 ''1A'', address 4 ''101'']"
    by (simp add: execute_def m fr sel)
  have "map (\<lambda>r. r (Column Addresses ''plot_or_building_number'')) (execute ?db q)
          = [Text ''1A'', Text ''2'', Text ''10'', Text ''101'']"
    unfolding e o
    by (simp add: sort_rows_def example_session_def address_def example_row_def
          leading_number_def)
  with h o k show ?thesis by (intro exI [of _ q] conjI)
qed

end
